theory Spec2Isabelle
  imports Main "HOL-Library.Sublist"
begin

section \<open>Data model (app/auth/models.py)\<close>

text \<open>
  One record per mapped table, holding the columns the authentication, session and RBAC
  code reads or writes. Timestamps are natural numbers (seconds, UTC). Audit columns
  (\<open>created_at\<close>, \<open>updated_at\<close>, \<open>created_by\<close>, \<open>updated_by\<close>) and the
  store-assigned \<open>log_id\<close> are left out: no modelled function reads them.
\<close>

record IAMRole =
  role_id :: int
  role_name :: string
  role_description :: "string option"

text \<open>
  The row of \<open>iam_user_account\<close>. The field \<open>is_active\<close> is the table column; the
  Python method of the same name is \<open>is_active_hook\<close> below.
\<close>

record IAMUserAccount =
  user_id :: int
  parent_id :: int
  username :: string
  email :: string
  phone_number :: "string option"
  display_name :: string
  auth_provider :: string
  password_hash :: "string option"
  is_active :: bool
  is_locked :: bool
  last_login_at :: "nat option"

record IAMUserRole =
  ur_user_id :: int
  ur_role_id :: int

record IAMAuthSession =
  session_id :: string
  session_user_id :: int
  login_time :: nat
  logout_time :: "nat option"
  session_ip_address :: "string option"
  session_user_agent :: "string option"

record IAMAuthLog =
  log_user_id :: "int option"
  event_type :: string
  event_time :: nat
  ip_address :: "string option"
  user_agent :: "string option"
  details :: string

text \<open>
  The store: its tables, and \<open>row_order\<close>, the order in which it hands back the rows
  of a relationship load. The source puts no ORDER BY on that load, so the order is the
  store's own: rows come back by increasing \<open>row_order\<close>.
\<close>

record database =
  iam_user_account :: "IAMUserAccount list"
  iam_role :: "IAMRole list"
  iam_user_role :: "IAMUserRole list"
  iam_auth_session :: "IAMAuthSession list"
  iam_auth_log :: "IAMAuthLog list"
  row_order :: "IAMRole \<Rightarrow> nat"

section \<open>RBAC helpers\<close>

text \<open>
  \<open>IAMUserAccount.roles\<close> is the relationship through the join table
  \<open>iam_user_role\<close>: the roles whose id is paired with the user's id, in the order
  in which the store returns them.
\<close>

definition assigned :: "database \<Rightarrow> IAMUserAccount \<Rightarrow> IAMRole \<Rightarrow> bool" where
  "assigned db self r =
     list_ex (\<lambda>a. ur_user_id a = user_id self \<and> ur_role_id a = role_id r) (iam_user_role db)"

definition roles :: "database \<Rightarrow> IAMUserAccount \<Rightarrow> IAMRole list" where
  "roles db self = sort_key (row_order db) (filter (assigned db self) (iam_role db))"

text \<open>\<^verbatim>\<open>return any(r.role_name == role_name for r in self.roles)\<close>\<close>

definition has_role :: "database \<Rightarrow> IAMUserAccount \<Rightarrow> string \<Rightarrow> bool" where
  "has_role db self rn = list_ex (\<lambda>r. role_name r = rn) (roles db self)"

text \<open>
  \<^verbatim>\<open>names = {r.role_name for r in self.roles}\<close>
  \<^verbatim>\<open>return any(r in names for r in role_names)\<close>
\<close>

definition has_any_role :: "database \<Rightarrow> IAMUserAccount \<Rightarrow> string list \<Rightarrow> bool" where
  "has_any_role db self role_names =
     (let names = set (map role_name (roles db self))
      in list_ex (\<lambda>r. r \<in> names) role_names)"

text \<open>
  \<^verbatim>\<open>user.roles.append(admin_role)\<close> followed by a commit (the \<open>create-test-user\<close>
  command of app/__init__.py): one row is added to the join table.
\<close>

definition roles_append :: "database \<Rightarrow> IAMUserAccount \<Rightarrow> IAMRole \<Rightarrow> database" where
  "roles_append db self r =
     db\<lparr>iam_user_role := iam_user_role db @ [\<lparr>ur_user_id = user_id self, ur_role_id = role_id r\<rparr>]\<rparr>"

text \<open>
  Modelled from the spec: no source function removes an assignment. Removing the
  assignment of a role deletes the join row of that (user, role) pair.
\<close>

definition roles_remove :: "database \<Rightarrow> IAMUserAccount \<Rightarrow> IAMRole \<Rightarrow> database" where
  "roles_remove db self r =
     db\<lparr>iam_user_role :=
          filter (\<lambda>a. \<not> (ur_user_id a = user_id self \<and> ur_role_id a = role_id r)) (iam_user_role db)\<rparr>"

section \<open>Requests, replies and the environment of one request\<close>

text \<open>
  A JSON value as Python reads it: \<open>null\<close> (also what \<open>data.get\<close> gives for a missing
  key), a boolean, a number (an integer here), a string, an array or an object.
\<close>

datatype json = JNull | JBool bool | JNum int | JStr string
  | JArr "json list" | JObj "(string \<times> json) list"

text \<open>
  The JSON body of a login request as \<open>request.get_json()\<close> and \<open>data.get\<close> see it:
  \<open>None\<close> is an absent or empty body (both are falsy for \<^verbatim>\<open>if not data\<close>). The
  password is any JSON value. The username is a JSON string, or \<open>None\<close> when the
  key is missing or null: how the store compares a parameter of another type with the
  \<open>username\<close> column is not in the source.
\<close>

record login_data =
  data_username :: "string option"
  data_password :: json

record request =
  remote_addr :: "string option"
  user_agent_header :: "string option"
  get_json :: "login_data option"

text \<open>The \<open>user\<close> object of the login and verify replies.\<close>

record user_payload =
  p_user_id :: int
  p_username :: string
  p_email :: string
  p_display_name :: string
  p_roles :: "string list"
  p_auth_provider :: string

text \<open>
  The JSON bodies the endpoints return: \<open>Error_body m\<close> is
  \<^verbatim>\<open>{"status": "error", "message": m}\<close>, \<open>Login_body u\<close> is
  \<^verbatim>\<open>{"status": "success", "user": u}\<close>, \<open>Verify_body u\<close> is
  \<^verbatim>\<open>{"authenticated": true, "user": u}\<close> and \<open>Logout_body\<close> is
  \<^verbatim>\<open>{"status": "success", "message": "Logged out"}\<close>.
  A reply is a body with its HTTP status, or the refusal of the \<open>login_required\<close> gate.
\<close>

datatype body = Error_body string | Login_body user_payload | Verify_body user_payload | Logout_body

datatype reply = Unauthorized | Reply body nat

text \<open>
  The client-visible session: the user id that Flask-Login keeps in the session cookie
  (\<open>get_id\<close> writes \<open>str(self.user_id)\<close>, \<open>load_user\<close> reads it back with \<open>int\<close>),
  or \<open>None\<close> when the client carries no login.
\<close>

type_synonym client_session = "int option"

text \<open>
  The exceptions that the ORM raises by itself: an UPDATE that matches no row, a read
  through a session whose failed transaction was not rolled back (with the text of the
  first exception), and the re-read of an object whose row is gone.
\<close>

datatype orm_failure = StaleDataError | PendingRollbackError string | ObjectDeletedError

text \<open>
  What the code takes from outside during one request: the password-hash check of the
  library (\<open>Inl\<close> when it raises, as it does on a hash or a password it cannot
  process), the clock, and the behaviour of the data store. Each store call of the source
  either returns or raises; \<open>Some m\<close> in a fault field means that this call raises an
  exception whose text is \<open>m\<close>. \<open>orm_error\<close> is the text of the ORM's own exceptions.
  \<open>concurrent\<close> is what other requests committed to the store between the user lookup
  and the status re-read of a login.
\<close>

record environment =
  check_password_hash :: "string \<Rightarrow> json \<Rightarrow> string + bool"
  utcnow :: nat
  query_fault :: "string option"
  execute_fault :: "string option"
  commit_fault :: "string option"
  audit_fault :: "string option"
  orm_error :: "orm_failure \<Rightarrow> string"
  concurrent :: "database \<Rightarrow> database"

section \<open>Store calls\<close>

text \<open>\<^verbatim>\<open>IAMUserAccount.query.filter_by(username=username).first()\<close>\<close>

definition query_first_by_username ::
  "environment \<Rightarrow> database \<Rightarrow> string \<Rightarrow> string + IAMUserAccount option" where
  "query_first_by_username env db name =
     (case query_fault env of
        Some e \<Rightarrow> Inl e
      | None \<Rightarrow> Inr (find (\<lambda>u. username u = name) (iam_user_account db)))"

text \<open>
  The read of an attribute of \<open>user\<close> after a commit has expired the object: the ORM
  selects the row of the object's primary key again. The read raises when the session
  still holds a failed transaction (\<open>pending\<close>), and when the row is gone.
\<close>

definition refresh ::
  "environment \<Rightarrow> string option \<Rightarrow> database \<Rightarrow> IAMUserAccount \<Rightarrow> string + IAMUserAccount" where
  "refresh env pending db user =
     (case pending of
        Some e \<Rightarrow> Inl (orm_error env (PendingRollbackError e))
      | None \<Rightarrow>
          (case find (\<lambda>u. user_id u = user_id user) (iam_user_account db) of
             None \<Rightarrow> Inl (orm_error env ObjectDeletedError)
           | Some u \<Rightarrow> Inr u))"

text \<open>
  The raw status query
  \<^verbatim>\<open>SELECT CAST(is_active AS UNSIGNED), CAST(is_locked AS UNSIGNED) FROM iam_user_account WHERE user_id = :user_id\<close>
  with \<open>fetchone()\<close>: no row, or the two casts (nullable integers for the reader).
\<close>

type_synonym status_row = "int option \<times> int option"

definition execute_status_query ::
  "environment \<Rightarrow> database \<Rightarrow> int \<Rightarrow> string + status_row option" where
  "execute_status_query env db uid =
     (case execute_fault env of
        Some e \<Rightarrow> Inl e
      | None \<Rightarrow>
          Inr (case find (\<lambda>u. user_id u = uid) (iam_user_account db) of
                 None \<Rightarrow> None
               | Some u \<Rightarrow> Some (Some (if is_active u then 1 else 0),
                                 Some (if is_locked u then 1 else 0))))"

text \<open>
  The decision taken from the fetched row, written three times in the source with the
  same text (\<open>is_active_account\<close>, \<open>api_login\<close>, \<open>login_submit\<close>):
  \<^verbatim>\<open>if result:\<close>
  \<^verbatim>\<open>    is_active_val = bool(result[0]) if result[0] is not None else True\<close>
  \<^verbatim>\<open>    is_locked_val = bool(result[1]) if result[1] is not None else False\<close>
  \<^verbatim>\<open>    account_active = is_active_val and not is_locked_val\<close>
  \<^verbatim>\<open>else:\<close>
  \<^verbatim>\<open>    account_active = True\<close>
\<close>

definition account_active :: "status_row option \<Rightarrow> bool" where
  "account_active result =
     (case result of
        Some (r0, r1) \<Rightarrow>
          (let is_active_val = (case r0 of Some v \<Rightarrow> v \<noteq> 0 | None \<Rightarrow> True);
               is_locked_val = (case r1 of Some v \<Rightarrow> v \<noteq> 0 | None \<Rightarrow> False)
           in is_active_val \<and> \<not> is_locked_val)
      | None \<Rightarrow> True)"

text \<open>
  \<^verbatim>\<open>user.last_login_at = datetime.utcnow(); db.session.commit()\<close>: the update of the
  user's row, or the exception of the commit. The UPDATE names the row by its primary
  key; when no row has that key any more, the ORM raises its stale-data error.
\<close>

definition commit_last_login ::
  "environment \<Rightarrow> database \<Rightarrow> IAMUserAccount \<Rightarrow> string + database" where
  "commit_last_login env db user =
     (case commit_fault env of
        Some e \<Rightarrow> Inl e
      | None \<Rightarrow>
          if list_ex (\<lambda>u. user_id u = user_id user) (iam_user_account db)
          then Inr (db\<lparr>iam_user_account :=
                    map (\<lambda>u. if user_id u = user_id user
                              then u\<lparr>last_login_at := Some (utcnow env)\<rparr> else u)
                        (iam_user_account db)\<rparr>)
          else Inl (orm_error env StaleDataError))"

section \<open>Model methods of IAMUserAccount\<close>

definition is_authenticated :: "IAMUserAccount \<Rightarrow> bool" where
  "is_authenticated self = True"

text \<open>
  The property \<open>is_active_account\<close>: the status query inside \<^verbatim>\<open>try\<close>, with
  \<^verbatim>\<open>except Exception: return True\<close>.
\<close>

definition is_active_account :: "environment \<Rightarrow> database \<Rightarrow> IAMUserAccount \<Rightarrow> bool" where
  "is_active_account env db self =
     (case execute_status_query env db (user_id self) of
        Inl e \<Rightarrow> True
      | Inr result \<Rightarrow> account_active result)"

text \<open>The method \<open>is_active\<close> (\<^verbatim>\<open>return self.is_active_account\<close>).\<close>

definition is_active_hook :: "environment \<Rightarrow> database \<Rightarrow> IAMUserAccount \<Rightarrow> bool" where
  "is_active_hook env db self = is_active_account env db self"

text \<open>
  \<^verbatim>\<open>if not self.password_hash: return False\<close>
  \<^verbatim>\<open>return check_password_hash(self.password_hash, raw_password)\<close>
  The method has no handler: an exception of the library's check leaves it (\<open>Inl\<close>).
\<close>

definition verify_password :: "environment \<Rightarrow> IAMUserAccount \<Rightarrow> json \<Rightarrow> string + bool" where
  "verify_password env self raw_password =
     (case password_hash self of
        None \<Rightarrow> Inr False
      | Some h \<Rightarrow> if h = [] then Inr False else check_password_hash env h raw_password)"

section \<open>REST endpoints (app/auth/routes_api.py)\<close>

text \<open>Python truthiness of an optional string: \<^verbatim>\<open>not s\<close> holds for \<open>None\<close> and for \<open>""\<close>.\<close>

definition py_not :: "string option \<Rightarrow> bool" where
  "py_not s = (case s of None \<Rightarrow> True | Some v \<Rightarrow> v = [])"

text \<open>
  Python truthiness of a JSON value: \<^verbatim>\<open>not v\<close> holds for \<open>None\<close>, \<open>False\<close>, \<open>0\<close>,
  \<open>""\<close>, the empty list and the empty dictionary.
\<close>

fun falsy :: "json \<Rightarrow> bool" where
  "falsy JNull = True"
| "falsy (JBool b) = (\<not> b)"
| "falsy (JNum n) = (n = 0)"
| "falsy (JStr s) = (s = [])"
| "falsy (JArr xs) = (xs = [])"
| "falsy (JObj kvs) = (kvs = [])"

definition str_of :: "string option \<Rightarrow> string" where
  "str_of s = (case s of None \<Rightarrow> [] | Some v \<Rightarrow> v)"

definition str_bool :: "bool \<Rightarrow> string" where
  "str_bool b = (if b then ''True'' else ''False'')"

text \<open>
  \<open>log_auth_event\<close>: build the row, add it and commit, all inside \<^verbatim>\<open>try\<close>; the handler
  is \<^verbatim>\<open>except Exception: pass\<close>. The row's text is
  \<^verbatim>\<open>details or f"Event: {event_type}, Success: {success}"\<close>. The result is the store
  after the call, and the state in which the call leaves \<open>db.session\<close>: a write that
  raises leaves the table as it was, and the handler swallows the exception without a
  rollback, so the session keeps its failed transaction (\<open>Some e\<close>, with the text of the
  exception).
\<close>

definition log_auth_event ::
  "environment \<Rightarrow> request \<Rightarrow> database \<Rightarrow> string \<Rightarrow> int option \<Rightarrow> bool \<Rightarrow> string option \<Rightarrow>
   database \<times> string option" where
  "log_auth_event env req db ev uid success dts =
     (case audit_fault env of
        Some e \<Rightarrow> (db, Some e)
      | None \<Rightarrow>
          (db\<lparr>iam_auth_log := iam_auth_log db @
               [\<lparr>log_user_id = uid,
                 event_type = ev,
                 event_time = utcnow env,
                 ip_address = remote_addr req,
                 user_agent = user_agent_header req,
                 details = (if py_not dts
                            then ''Event: '' @ ev @ '', Success: '' @ str_bool success
                            else str_of dts)\<rparr>]\<rparr>,
           None))"

text \<open>
  \<open>login_user(user, remember=True)\<close> of Flask-Login puts the user's id into the client's
  session; \<open>logout_user()\<close> removes it.
\<close>

definition login_user :: "IAMUserAccount \<Rightarrow> client_session" where
  "login_user user = Some (user_id user)"

definition logout_user :: client_session where
  "logout_user = None"

text \<open>The \<open>user\<close> object built by \<open>api_login\<close> and \<open>api_verify\<close>.\<close>

definition user_info :: "database \<Rightarrow> IAMUserAccount \<Rightarrow> user_payload" where
  "user_info db user =
     \<lparr>p_user_id = user_id user,
      p_username = username user,
      p_email = email user,
      p_display_name = display_name user,
      p_roles = map role_name (roles db user),
      p_auth_provider = auth_provider user\<rparr>"

text \<open>
  The body of \<open>api_login\<close> inside its \<^verbatim>\<open>try\<close>: \<open>Inl e\<close> is an exception with text
  \<open>e\<close> leaving the block, \<open>Inr\<close> a returned reply. The store and the client session are
  returned as they stand when the block is left.

  On the successful path the source reads attributes of \<open>user\<close> after commits, which
  expire the object: \<open>user.user_id\<close> for the audit call after the commit of
  \<open>last_login_at\<close>, and the attributes and roles of the reply after the commit of the
  audit row. Each is a \<open>refresh\<close> from the store as it then stands; the second goes
  through the session as \<open>log_auth_event\<close> left it.
\<close>

definition api_login_try ::
  "environment \<Rightarrow> database \<Rightarrow> client_session \<Rightarrow> request \<Rightarrow>
   (string + reply) \<times> database \<times> client_session" where
  "api_login_try env db cs req =
     (case get_json req of
        None \<Rightarrow> (Inr (Reply (Error_body ''Invalid request'') 400), db, cs)
      | Some data \<Rightarrow>
          if py_not (data_username data) \<or> falsy (data_password data)
          then (Inr (Reply (Error_body ''Username and password required'') 400), db, cs)
          else
            (case query_first_by_username env db (str_of (data_username data)) of
               Inl e \<Rightarrow> (Inl e, db, cs)
             | Inr None \<Rightarrow>
                 (Inr (Reply (Error_body ''Invalid credentials'') 401),
                  fst (log_auth_event env req db ''login_failed'' None False
                         (Some (''User not found: '' @ str_of (data_username data)))),
                  cs)
             | Inr (Some user) \<Rightarrow>
                 (case verify_password env user (data_password data) of
                    Inl e \<Rightarrow> (Inl e, db, cs)
                  | Inr False \<Rightarrow>
                      (Inr (Reply (Error_body ''Invalid credentials'') 401),
                       fst (log_auth_event env req db ''login_failed'' (Some (user_id user)) False
                              (Some ''Invalid password'')),
                       cs)
                  | Inr True \<Rightarrow>
                      (let db1 = concurrent env db in
                       case execute_status_query env db1 (user_id user) of
                         Inl e \<Rightarrow> (Inl e, db1, cs)
                       | Inr result \<Rightarrow>
                           if \<not> account_active result
                           then (Inr (Reply (Error_body ''Account disabled or locked'') 403),
                                 fst (log_auth_event env req db1 ''login_failed'' (Some (user_id user)) False
                                        (Some ''Account locked/inactive'')),
                                 cs)
                           else
                             (case commit_last_login env db1 user of
                                Inl e \<Rightarrow> (Inl e, db1, login_user user)
                              | Inr db2 \<Rightarrow>
                                  (case refresh env None db2 user of
                                     Inl e \<Rightarrow> (Inl e, db2, login_user user)
                                   | Inr u2 \<Rightarrow>
                                       (case log_auth_event env req db2 ''login_success''
                                               (Some (user_id u2)) True None of
                                          (db3, pending) \<Rightarrow>
                                            (case refresh env pending db3 user of
                                               Inl e \<Rightarrow> (Inl e, db3, login_user user)
                                             | Inr u3 \<Rightarrow>
                                                 (Inr (Reply (Login_body (user_info db3 u3)) 200),
                                                  db3, login_user user)))))))))"

text \<open>
  \<open>api_login\<close> (POST /api/auth/login): the block above, with
  \<^verbatim>\<open>except Exception as e: return jsonify({"status": "error", "message": f"Server error: {str(e)}"}), 500\<close>.
\<close>

definition api_login ::
  "environment \<Rightarrow> database \<Rightarrow> client_session \<Rightarrow> request \<Rightarrow> reply \<times> database \<times> client_session" where
  "api_login env db cs req =
     (case api_login_try env db cs req of
        (Inl e, db', cs') \<Rightarrow> (Reply (Error_body (''Server error: '' @ e)) 500, db', cs')
      | (Inr r, db', cs') \<Rightarrow> (r, db', cs'))"

text \<open>
  The user loader of app/__init__.py, \<^verbatim>\<open>IAMUserAccount.query.get(int(user_id))\<close>, and
  Flask-Login's \<open>current_user\<close>: the loaded user of the id in the client's session.
\<close>

definition load_user :: "database \<Rightarrow> int \<Rightarrow> IAMUserAccount option" where
  "load_user db uid = find (\<lambda>u. user_id u = uid) (iam_user_account db)"

definition current_user :: "database \<Rightarrow> client_session \<Rightarrow> IAMUserAccount option" where
  "current_user db cs = (case cs of None \<Rightarrow> None | Some uid \<Rightarrow> load_user db uid)"

text \<open>
  The decorator \<open>login_required\<close> of Flask-Login: the view runs when
  \<open>current_user.is_authenticated\<close> holds; otherwise the request is refused and nothing
  of the view runs. An anonymous user (no id in the session, or no such row) is not
  authenticated.
\<close>

definition login_required ::
  "database \<Rightarrow> client_session \<Rightarrow> (IAMUserAccount \<Rightarrow> reply \<times> database \<times> client_session) \<Rightarrow>
   reply \<times> database \<times> client_session" where
  "login_required db cs view =
     (case current_user db cs of
        None \<Rightarrow> (Unauthorized, db, cs)
      | Some u \<Rightarrow> if is_authenticated u then view u else (Unauthorized, db, cs))"

text \<open>
  \<open>api_verify\<close> (GET /api/auth/verify). The user was loaded in this request and nothing
  was committed since, so the reply reads the loaded object.
\<close>

definition api_verify ::
  "environment \<Rightarrow> database \<Rightarrow> client_session \<Rightarrow> reply \<times> database \<times> client_session" where
  "api_verify env db cs =
     login_required db cs (\<lambda>cu. (Reply (Verify_body (user_info db cu)) 200, db, cs))"

text \<open>
  \<open>api_logout\<close> (POST /api/auth/logout):
  \<^verbatim>\<open>user_id = current_user.user_id if current_user else None\<close>
  \<^verbatim>\<open>logout_user()\<close>
  \<^verbatim>\<open>log_auth_event("logout", user_id=user_id, success=True)\<close>
  The reply that follows is a constant: nothing is read through the session after the
  audit call.
\<close>

definition api_logout ::
  "environment \<Rightarrow> database \<Rightarrow> client_session \<Rightarrow> request \<Rightarrow> reply \<times> database \<times> client_session" where
  "api_logout env db cs req =
     login_required db cs
       (\<lambda>cu. (Reply Logout_body 200,
               fst (log_auth_event env req db ''logout'' (Some (user_id cu)) True None),
               logout_user))"

section \<open>HTML login (app/auth/routes_login.py)\<close>

text \<open>
  A redirect to a named endpoint, with the flashed message and its category if any.
  \<open>login_submit\<close> has no \<^verbatim>\<open>try\<close>: an exception of a store call or of the password
  check leaves the view (\<open>Inl\<close>, nothing of the view's having been committed). It writes
  no audit event. A form field that is missing reads as \<open>None\<close>: the lookup by a
  \<open>None\<close> username finds no row, and the password goes to the check as it is.
\<close>

datatype page = Redirect string "(string \<times> string) option"

definition form_value :: "string option \<Rightarrow> json" where
  "form_value v = (case v of None \<Rightarrow> JNull | Some s \<Rightarrow> JStr s)"

definition login_submit ::
  "environment \<Rightarrow> database \<Rightarrow> client_session \<Rightarrow> string option \<Rightarrow> string option \<Rightarrow>
   string + page \<times> database \<times> client_session" where
  "login_submit env db cs uname pw =
     (case (case uname of
              None \<Rightarrow> (case query_fault env of Some e \<Rightarrow> Inl e | None \<Rightarrow> Inr None)
            | Some name \<Rightarrow> query_first_by_username env db name) of
        Inl e \<Rightarrow> Inl e
      | Inr None \<Rightarrow>
          Inr (Redirect ''auth.login_page'' (Some (''Invalid credentials'', ''error'')), db, cs)
      | Inr (Some user) \<Rightarrow>
          (case verify_password env user (form_value pw) of
             Inl e \<Rightarrow> Inl e
           | Inr False \<Rightarrow>
               Inr (Redirect ''auth.login_page'' (Some (''Invalid credentials'', ''error'')), db, cs)
           | Inr True \<Rightarrow>
               (let db1 = concurrent env db in
                case execute_status_query env db1 (user_id user) of
                  Inl e \<Rightarrow> Inl e
                | Inr result \<Rightarrow>
                    if \<not> account_active result
                    then Inr (Redirect ''auth.login_page'' (Some (''Account disabled / locked'', ''error'')),
                              db1, cs)
                    else
                      (case commit_last_login env db1 user of
                         Inl e \<Rightarrow> Inl e
                       | Inr db2 \<Rightarrow> Inr (Redirect ''admin.dashboard'' None, db2, login_user user)))))"

section \<open>Example scenario\<close>

text \<open>
  The scenario of the specification: user \<open>alice\<close> with a hash of \<open>Secr3t!\<close>, active and
  unlocked, holding the role \<open>admin\<close>; \<open>carol\<close> is an SSO-only account with no hash.
  The example hash check accepts the hash \<open>h:p\<close> for the password string \<open>p\<close> and
  raises on a password that is not a string.
\<close>

definition alice :: IAMUserAccount where
  "alice = \<lparr>user_id = 1, parent_id = 1, username = ''alice'', email = ''alice@example.com'',
            phone_number = None, display_name = ''Alice'', auth_provider = ''local'',
            password_hash = Some ''h:Secr3t!'', is_active = True, is_locked = False,
            last_login_at = None\<rparr>"

definition carol :: IAMUserAccount where
  "carol = \<lparr>user_id = 2, parent_id = 1, username = ''carol'', email = ''carol@example.com'',
            phone_number = None, display_name = ''Carol'', auth_provider = ''okta'',
            password_hash = None, is_active = True, is_locked = False,
            last_login_at = None\<rparr>"

definition admin_role :: IAMRole where
  "admin_role = \<lparr>role_id = 10, role_name = ''admin'', role_description = None\<rparr>"

definition auditor_role :: IAMRole where
  "auditor_role = \<lparr>role_id = 11, role_name = ''auditor'', role_description = None\<rparr>"

definition store0 :: database where
  "store0 = \<lparr>iam_user_account = [alice, carol],
             iam_role = [admin_role, auditor_role],
             iam_user_role = [\<lparr>ur_user_id = 1, ur_role_id = 10\<rparr>],
             iam_auth_session = [],
             iam_auth_log = [],
             row_order = (\<lambda>r. nat (role_id r))\<rparr>"

definition env0 :: environment where
  "env0 = \<lparr>check_password_hash =
             (\<lambda>h p. case p of JStr s \<Rightarrow> Inr (h = ''h:'' @ s) | _ \<Rightarrow> Inl ''password is not a string''),
           utcnow = 1000,
           query_fault = None, execute_fault = None, commit_fault = None, audit_fault = None,
           orm_error = (\<lambda>f. case f of
                          StaleDataError \<Rightarrow> ''UPDATE matched 0 rows''
                        | PendingRollbackError e \<Rightarrow> ''session needs rollback after: '' @ e
                        | ObjectDeletedError \<Rightarrow> ''row has been deleted''),
           concurrent = (\<lambda>db. db)\<rparr>"

definition req0 :: "string \<Rightarrow> json \<Rightarrow> request" where
  "req0 u p = \<lparr>remote_addr = Some ''10.0.0.7'', user_agent_header = Some ''curl'',
               get_json = Some \<lparr>data_username = Some u, data_password = p\<rparr>\<rparr>"

text \<open>The same store holding one active AuthSession row of \<open>alice\<close>.\<close>

definition store1 :: database where
  "store1 = store0\<lparr>iam_auth_session :=
               [\<lparr>session_id = ''s-1'', session_user_id = 1, login_time = 900, logout_time = None,
                 session_ip_address = Some ''10.0.0.7'', session_user_agent = Some ''curl''\<rparr>]\<rparr>"

text \<open>An administrator's change of the two status flags of one user's row.\<close>

definition set_status :: "database \<Rightarrow> int \<Rightarrow> bool \<Rightarrow> bool \<Rightarrow> database" where
  "set_status db uid a l =
     db\<lparr>iam_user_account :=
          map (\<lambda>u. if user_id u = uid then u\<lparr>is_active := a, is_locked := l\<rparr> else u)
              (iam_user_account db)\<rparr>"

text \<open>The deletion of one user's row by another request.\<close>

definition delete_user :: "database \<Rightarrow> int \<Rightarrow> database" where
  "delete_user db uid =
     db\<lparr>iam_user_account := filter (\<lambda>u. user_id u \<noteq> uid) (iam_user_account db)\<rparr>"

section \<open>Properties of the RBAC helpers\<close>

lemma assigned_iff:
  "assigned db u r \<longleftrightarrow> \<lparr>ur_user_id = user_id u, ur_role_id = role_id r\<rparr> \<in> set (iam_user_role db)"
proof
  assume "assigned db u r"
  then obtain a where a: "a \<in> set (iam_user_role db)" "ur_user_id a = user_id u" "ur_role_id a = role_id r"
    by (auto simp: assigned_def list_ex_iff)
  from a(2,3) have "a = \<lparr>ur_user_id = user_id u, ur_role_id = role_id r\<rparr>"
    by (cases a) simp
  with a(1) show "\<lparr>ur_user_id = user_id u, ur_role_id = role_id r\<rparr> \<in> set (iam_user_role db)"
    by simp
next
  assume "\<lparr>ur_user_id = user_id u, ur_role_id = role_id r\<rparr> \<in> set (iam_user_role db)"
  then show "assigned db u r"
    unfolding assigned_def list_ex_iff by (rule bexI [rotated]) simp
qed

lemma set_roles: "set (roles db u) = {r \<in> set (iam_role db). assigned db u r}"
  by (simp add: roles_def)

lemma has_role_iff:
  "has_role db u rn \<longleftrightarrow> (\<exists>r \<in> set (iam_role db). assigned db u r \<and> role_name r = rn)"
  by (auto simp: has_role_def list_ex_iff set_roles)

lemma has_any_role_iff:
  "has_any_role db u rns \<longleftrightarrow> (\<exists>n \<in> set rns. has_role db u n)"
  by (auto simp: has_any_role_def has_role_def list_ex_iff Let_def)

lemma assigned_roles_append:
  "assigned (roles_append db u r) u r' \<longleftrightarrow> assigned db u r' \<or> role_id r' = role_id r"
  by (auto simp: assigned_iff roles_append_def)

lemma assigned_roles_remove:
  "assigned (roles_remove db u r) u r' \<longleftrightarrow> assigned db u r' \<and> role_id r' \<noteq> role_id r"
  by (auto simp: assigned_iff roles_remove_def)

lemma iam_role_roles_append [simp]: "iam_role (roles_append db u r) = iam_role db"
  by (simp add: roles_append_def)

lemma iam_role_roles_remove [simp]: "iam_role (roles_remove db u r) = iam_role db"
  by (simp add: roles_remove_def)

lemma has_role_after_append:
  "r \<in> set (iam_role db) \<Longrightarrow> has_role (roles_append db u r) u (role_name r)"
  by (auto simp: has_role_iff assigned_roles_append)

lemma has_role_after_remove:
  assumes "r \<in> set (iam_role db)" and "distinct (map role_name (iam_role db))"
  shows "\<not> has_role (roles_remove db u r) u (role_name r)"
proof
  assume "has_role (roles_remove db u r) u (role_name r)"
  then obtain r' where r': "r' \<in> set (iam_role db)" "role_id r' \<noteq> role_id r" "role_name r' = role_name r"
    by (auto simp: has_role_iff assigned_roles_remove)
  from assms(2) have "inj_on role_name (set (iam_role db))"
    by (simp add: distinct_map)
  with r'(1,3) assms(1) have "r' = r" by (auto dest: inj_onD)
  with r'(2) show False by simp
qed

text \<open>
  Claim C10. \<open>has_role\<close> holds exactly when the assignment relation pairs the user with a
  role of exactly that name (string equality, so case matters), and \<open>has_any_role\<close> holds
  exactly when \<open>has_role\<close> holds for one of the given names. Assigning a role of the
  role table makes \<open>has_role\<close> true for its name; removing the assignment makes it
  false, role names being unique in the role table.
\<close>

theorem rbac_membership:
  "(has_role db u rn \<longleftrightarrow>
      (\<exists>r \<in> set (iam_role db).
          \<lparr>ur_user_id = user_id u, ur_role_id = role_id r\<rparr> \<in> set (iam_user_role db) \<and> role_name r = rn))
   \<and> (has_any_role db u rns \<longleftrightarrow> (\<exists>n \<in> set rns. has_role db u n))
   \<and> (r \<in> set (iam_role db) \<longrightarrow> has_role (roles_append db u r) u (role_name r))
   \<and> (r \<in> set (iam_role db) \<and> distinct (map role_name (iam_role db)) \<longrightarrow>
        \<not> has_role (roles_remove db u r) u (role_name r))"
  using has_role_iff [of db u rn] has_any_role_iff [of db u rns]
    has_role_after_append [of r db u] has_role_after_remove [of r db u]
  by (simp add: assigned_iff)

theorem rbac_membership_witness:
  "has_role store0 alice ''admin'' \<and> \<not> has_role store0 alice ''Admin''
   \<and> \<not> has_role store0 alice ''auditor''
   \<and> has_any_role store0 alice [''auditor'', ''admin'']
   \<and> \<not> has_any_role store0 alice [''auditor'', ''ADMIN'']
   \<and> auditor_role \<in> set (iam_role store0)
   \<and> has_role (roles_append store0 alice auditor_role) alice ''auditor''
   \<and> admin_role \<in> set (iam_role store0) \<and> distinct (map role_name (iam_role store0))
   \<and> \<not> has_role (roles_remove store0 alice admin_role) alice ''admin''"
  using rbac_membership [of store0 alice "''admin''" "[''auditor'', ''admin'']" auditor_role]
    rbac_membership [of store0 alice "''Admin''" "[''auditor'', ''ADMIN'']" admin_role]
    rbac_membership [of store0 alice "''auditor''" "[]" admin_role]
    rbac_membership [of store0 alice "''ADMIN''" "[]" admin_role]
  by (simp add: store0_def alice_def admin_role_def auditor_role_def)

section \<open>Properties of the login endpoint\<close>

text \<open>The definitions of the example scenario and of the model, for evaluation.\<close>

lemmas example_defs = req0_def env0_def store0_def store1_def alice_def carol_def admin_role_def auditor_role_def

lemmas model_defs = api_login_def api_login_try_def query_first_by_username_def
  execute_status_query_def account_active_def commit_last_login_def verify_password_def
  log_auth_event_def login_user_def logout_user_def user_info_def roles_def assigned_def
  py_not_def str_of_def str_bool_def set_status_def delete_user_def refresh_def form_value_def
  api_verify_def api_logout_def login_required_def current_user_def load_user_def
  is_authenticated_def is_active_account_def is_active_hook_def login_submit_def

subsection \<open>The audit helper, the status query and the re-read\<close>

lemma log_auth_event_tables:
  "iam_user_account (fst (log_auth_event env req db ev uid s d)) = iam_user_account db"
  "iam_role (fst (log_auth_event env req db ev uid s d)) = iam_role db"
  "iam_user_role (fst (log_auth_event env req db ev uid s d)) = iam_user_role db"
  "iam_auth_session (fst (log_auth_event env req db ev uid s d)) = iam_auth_session db"
  "row_order (fst (log_auth_event env req db ev uid s d)) = row_order db"
  by (simp_all add: log_auth_event_def split: option.split)

lemma log_auth_event_fault:
  "audit_fault env = Some e \<Longrightarrow> log_auth_event env req db ev uid s d = (db, Some e)"
  by (simp add: log_auth_event_def)

lemma log_auth_event_written:
  "audit_fault env = None \<Longrightarrow>
   iam_auth_log (fst (log_auth_event env req db ev uid s d)) =
     iam_auth_log db @
       [\<lparr>log_user_id = uid, event_type = ev, event_time = utcnow env,
         ip_address = remote_addr req, user_agent = user_agent_header req,
         details = (if py_not d then ''Event: '' @ ev @ '', Success: '' @ str_bool s else str_of d)\<rparr>]"
  by (simp add: log_auth_event_def)

lemma log_auth_event_clean:
  "audit_fault env = None \<Longrightarrow> snd (log_auth_event env req db ev uid s d) = None"
  by (simp add: log_auth_event_def)

lemma account_active_row:
  "account_active (Some (Some (if a then 1 else 0), Some (if l then 1 else 0))) \<longleftrightarrow> a \<and> \<not> l"
  by (simp add: account_active_def)

lemma execute_status_query_ok:
  "execute_fault env = None \<Longrightarrow>
   execute_status_query env db uid =
     Inr (case find (\<lambda>u. user_id u = uid) (iam_user_account db) of
            None \<Rightarrow> None
          | Some u \<Rightarrow> Some (Some (if is_active u then 1 else 0), Some (if is_locked u then 1 else 0)))"
  by (simp add: execute_status_query_def)

lemma execute_status_query_fault:
  "execute_fault env = Some e \<Longrightarrow> execute_status_query env db uid = Inl e"
  by (simp add: execute_status_query_def)

lemma find_username:
  "find (\<lambda>u. username u = uname) us = Some user \<Longrightarrow> username user = uname"
  by (auto simp: find_Some_iff)

lemma find_user_id: "find (\<lambda>u. user_id u = uid) us = Some u \<Longrightarrow> user_id u = uid"
  by (auto simp: find_Some_iff)

lemma find_present:
  "find (\<lambda>u. user_id u = uid) us = Some u \<Longrightarrow> list_ex (\<lambda>u. user_id u = uid) us"
  by (auto simp: find_Some_iff list_ex_iff)

lemma find_absent:
  "find (\<lambda>u. user_id u = uid) us = None \<Longrightarrow> \<not> list_ex (\<lambda>u. user_id u = uid) us"
  by (auto simp: find_None_iff list_ex_iff)

lemma find_map_last_login:
  "find (\<lambda>u. user_id u = uid) us = Some cur \<Longrightarrow>
   find (\<lambda>u. user_id u = uid)
     (map (\<lambda>u. if user_id u = uid then u\<lparr>last_login_at := t\<rparr> else u) us)
   = Some (cur\<lparr>last_login_at := t\<rparr>)"
  by (induction us) (auto split: if_splits)

lemma commit_last_login_ok:
  assumes "commit_fault env = None"
    and "find (\<lambda>u. user_id u = user_id user) (iam_user_account db) = Some cur"
  shows "commit_last_login env db user =
           Inr (db\<lparr>iam_user_account :=
                     map (\<lambda>u. if user_id u = user_id user
                               then u\<lparr>last_login_at := Some (utcnow env)\<rparr> else u)
                         (iam_user_account db)\<rparr>)"
  using assms(1) find_present [OF assms(2)] by (simp add: commit_last_login_def)

lemma commit_last_login_stale:
  assumes "commit_fault env = None"
    and "find (\<lambda>u. user_id u = user_id user) (iam_user_account db) = None"
  shows "commit_last_login env db user = Inl (orm_error env StaleDataError)"
  using assms(1) find_absent [OF assms(2)] by (simp add: commit_last_login_def)

lemma commit_last_login_fault:
  "commit_fault env = Some e \<Longrightarrow> commit_last_login env db user = Inl e"
  by (simp add: commit_last_login_def)



subsection \<open>The paths through the login block\<close>

text \<open>
  One lemma per way out of the \<^verbatim>\<open>try\<close> block of \<open>api_login\<close>, for a body that
  carries a non-empty username and a truthy password.
\<close>

lemma api_login_try_query_fault:
  assumes "get_json req = Some \<lparr>data_username = Some uname, data_password = pw\<rparr>"
    and "uname \<noteq> []" and "\<not> falsy pw"
    and "query_fault env = Some e"
  shows "api_login_try env db cs req = (Inl e, db, cs)"
  using assms
  by (simp add: api_login_try_def py_not_def str_of_def query_first_by_username_def)

lemma api_login_try_unknown:
  assumes "get_json req = Some \<lparr>data_username = Some uname, data_password = pw\<rparr>"
    and "uname \<noteq> []" and "\<not> falsy pw"
    and "query_fault env = None"
    and "find (\<lambda>u. username u = uname) (iam_user_account db) = None"
  shows "api_login_try env db cs req =
          (Inr (Reply (Error_body ''Invalid credentials'') 401),
           fst (log_auth_event env req db ''login_failed'' None False (Some (''User not found: '' @ uname))),
           cs)"
  using assms
  by (simp add: api_login_try_def py_not_def str_of_def query_first_by_username_def)

lemma api_login_try_check_raises:
  assumes "get_json req = Some \<lparr>data_username = Some uname, data_password = pw\<rparr>"
    and "uname \<noteq> []" and "\<not> falsy pw"
    and "query_fault env = None"
    and "find (\<lambda>u. username u = uname) (iam_user_account db) = Some user"
    and "verify_password env user pw = Inl e"
  shows "api_login_try env db cs req = (Inl e, db, cs)"
  using assms
  by (simp add: api_login_try_def py_not_def str_of_def query_first_by_username_def)

lemma api_login_try_bad_password:
  assumes "get_json req = Some \<lparr>data_username = Some uname, data_password = pw\<rparr>"
    and "uname \<noteq> []" and "\<not> falsy pw"
    and "query_fault env = None"
    and "find (\<lambda>u. username u = uname) (iam_user_account db) = Some user"
    and "verify_password env user pw = Inr False"
  shows "api_login_try env db cs req =
          (Inr (Reply (Error_body ''Invalid credentials'') 401),
           fst (log_auth_event env req db ''login_failed'' (Some (user_id user)) False (Some ''Invalid password'')),
           cs)"
  using assms
  by (simp add: api_login_try_def py_not_def str_of_def query_first_by_username_def)

lemma api_login_try_execute_fault:
  assumes "get_json req = Some \<lparr>data_username = Some uname, data_password = pw\<rparr>"
    and "uname \<noteq> []" and "\<not> falsy pw"
    and "query_fault env = None"
    and "find (\<lambda>u. username u = uname) (iam_user_account db) = Some user"
    and "verify_password env user pw = Inr True"
    and "execute_fault env = Some e"
  shows "api_login_try env db cs req = (Inl e, concurrent env db, cs)"
  using assms
  by (simp add: api_login_try_def py_not_def str_of_def query_first_by_username_def
      execute_status_query_fault)

lemma api_login_try_status:
  assumes "get_json req = Some \<lparr>data_username = Some uname, data_password = pw\<rparr>"
    and "uname \<noteq> []" and "\<not> falsy pw"
    and "query_fault env = None"
    and "find (\<lambda>u. username u = uname) (iam_user_account db) = Some user"
    and "verify_password env user pw = Inr True"
    and "execute_status_query env (concurrent env db) (user_id user) = Inr result"
  shows "api_login_try env db cs req =
          (if \<not> account_active result
           then (Inr (Reply (Error_body ''Account disabled or locked'') 403),
                 fst (log_auth_event env req (concurrent env db) ''login_failed'' (Some (user_id user)) False
                        (Some ''Account locked/inactive'')),
                 cs)
           else (case commit_last_login env (concurrent env db) user of
                   Inl e \<Rightarrow> (Inl e, concurrent env db, login_user user)
                 | Inr db2 \<Rightarrow>
                     (case refresh env None db2 user of
                        Inl e \<Rightarrow> (Inl e, db2, login_user user)
                      | Inr u2 \<Rightarrow>
                          (case log_auth_event env req db2 ''login_success'' (Some (user_id u2)) True None of
                             (db3, pending) \<Rightarrow>
                               (case refresh env pending db3 user of
                                  Inl e \<Rightarrow> (Inl e, db3, login_user user)
                                | Inr u3 \<Rightarrow>
                                    (Inr (Reply (Login_body (user_info db3 u3)) 200),
                                     db3, login_user user))))))"
  using assms
  by (simp add: api_login_try_def py_not_def str_of_def query_first_by_username_def Let_def)

lemma api_login_try_fresh_status:
  assumes body: "get_json req = Some \<lparr>data_username = Some uname, data_password = pw\<rparr>"
    and nonempty: "uname \<noteq> []" "\<not> falsy pw"
    and store_ok: "query_fault env = None" "execute_fault env = None"
    and found: "find (\<lambda>u. username u = uname) (iam_user_account db) = Some user"
    and pw_ok: "verify_password env user pw = Inr True"
    and fresh: "find (\<lambda>u. user_id u = user_id user) (iam_user_account (concurrent env db)) = Some cur"
  shows "api_login_try env db cs req =
          (if \<not> (is_active cur \<and> \<not> is_locked cur)
           then (Inr (Reply (Error_body ''Account disabled or locked'') 403),
                 fst (log_auth_event env req (concurrent env db) ''login_failed'' (Some (user_id user)) False
                        (Some ''Account locked/inactive'')),
                 cs)
           else (case commit_last_login env (concurrent env db) user of
                   Inl e \<Rightarrow> (Inl e, concurrent env db, login_user user)
                 | Inr db2 \<Rightarrow>
                     (case refresh env None db2 user of
                        Inl e \<Rightarrow> (Inl e, db2, login_user user)
                      | Inr u2 \<Rightarrow>
                          (case log_auth_event env req db2 ''login_success'' (Some (user_id u2)) True None of
                             (db3, pending) \<Rightarrow>
                               (case refresh env pending db3 user of
                                  Inl e \<Rightarrow> (Inl e, db3, login_user user)
                                | Inr u3 \<Rightarrow>
                                    (Inr (Reply (Login_body (user_info db3 u3)) 200),
                                     db3, login_user user))))))"
proof -
  have q: "execute_status_query env (concurrent env db) (user_id user) =
             Inr (Some (Some (if is_active cur then 1 else 0), Some (if is_locked cur then 1 else 0)))"
    using fresh by (simp add: execute_status_query_ok [OF store_ok(2)])
  show ?thesis
    by (simp only: api_login_try_status [OF body nonempty store_ok(1) found pw_ok q] account_active_row)
qed

text \<open>
  The successful path up to the audit call: the commit of \<open>last_login_at\<close> succeeds on
  the row that is there, and the re-read for the audit call returns the updated row.
\<close>

lemma api_login_try_committed:
  assumes body: "get_json req = Some \<lparr>data_username = Some uname, data_password = pw\<rparr>"
    and nonempty: "uname \<noteq> []" "\<not> falsy pw"
    and store_ok: "query_fault env = None" "execute_fault env = None" "commit_fault env = None"
    and found: "find (\<lambda>u. username u = uname) (iam_user_account db) = Some user"
    and pw_ok: "verify_password env user pw = Inr True"
    and fresh: "find (\<lambda>u. user_id u = user_id user) (iam_user_account (concurrent env db)) = Some cur"
    and eligible: "is_active cur" "\<not> is_locked cur"
    and db2: "db2 = (concurrent env db)\<lparr>iam_user_account :=
                map (\<lambda>u. if user_id u = user_id user then u\<lparr>last_login_at := Some (utcnow env)\<rparr> else u)
                    (iam_user_account (concurrent env db))\<rparr>"
  shows "api_login_try env db cs req =
           (case log_auth_event env req db2 ''login_success'' (Some (user_id user)) True None of
              (db3, pending) \<Rightarrow>
                (case refresh env pending db3 user of
                   Inl e \<Rightarrow> (Inl e, db3, login_user user)
                 | Inr u3 \<Rightarrow>
                     (Inr (Reply (Login_body (user_info db3 u3)) 200), db3, login_user user)))"
proof -
  have c: "commit_last_login env (concurrent env db) user = Inr db2"
    unfolding db2 by (rule commit_last_login_ok [OF store_ok(3) fresh])
  have row: "find (\<lambda>u. user_id u = user_id user) (iam_user_account db2)
               = Some (cur\<lparr>last_login_at := Some (utcnow env)\<rparr>)"
    unfolding db2 by (simp add: find_map_last_login [OF fresh])
  have r: "refresh env None db2 user = Inr (cur\<lparr>last_login_at := Some (utcnow env)\<rparr>)"
    by (simp add: refresh_def row)
  have uid: "user_id (cur\<lparr>last_login_at := Some (utcnow env)\<rparr>) = user_id user"
    using find_user_id [OF fresh] by simp
  show ?thesis
    using api_login_try_fresh_status [OF body nonempty store_ok(1,2) found pw_ok fresh] eligible
    by (simp add: c r uid)
qed

subsection \<open>Successful login\<close>

lemma assigned_cong:
  "iam_user_role db' = iam_user_role db \<Longrightarrow> user_id u' = user_id u \<Longrightarrow>
   assigned db' u' r = assigned db u r"
  by (simp add: assigned_def)

text \<open>
  Claim C1, as amended. A login with a non-empty username and a password, whose user the
  lookup finds, whose password verifies and whose freshly re-read row is active and not
  locked, the store calls (the audit write among them) not failing, is answered with
  status 200 and a success body holding the user's identity as the row stands after the
  login and the names of the roles then assigned to the user, in the order in which the
  store returns them; the client's session then carries the user's id; exactly one
  \<open>login_success\<close> row is appended to the audit table; the user's row has
  \<open>last_login_at\<close> set to the time of the login; and the table of AuthSession rows is
  left as it was: no row is created there.
\<close>

theorem api_login_success:
  assumes body: "get_json req = Some \<lparr>data_username = Some uname, data_password = pw\<rparr>"
    and nonempty: "uname \<noteq> []" "\<not> falsy pw"
    and store_ok: "query_fault env = None" "execute_fault env = None"
                  "commit_fault env = None" "audit_fault env = None"
    and found: "find (\<lambda>u. username u = uname) (iam_user_account db) = Some user"
    and pw_ok: "verify_password env user pw = Inr True"
    and fresh: "find (\<lambda>u. user_id u = user_id user) (iam_user_account (concurrent env db)) = Some cur"
    and eligible: "is_active cur" "\<not> is_locked cur"
    and res: "api_login env db cs req = (r, db', cs')"
  shows "r = Reply (Login_body (user_info db' (cur\<lparr>last_login_at := Some (utcnow env)\<rparr>))) 200
    \<and> p_user_id (user_info db' (cur\<lparr>last_login_at := Some (utcnow env)\<rparr>)) = user_id user
    \<and> p_username (user_info db' (cur\<lparr>last_login_at := Some (utcnow env)\<rparr>)) = username cur
    \<and> p_email (user_info db' (cur\<lparr>last_login_at := Some (utcnow env)\<rparr>)) = email cur
    \<and> p_display_name (user_info db' (cur\<lparr>last_login_at := Some (utcnow env)\<rparr>)) = display_name cur
    \<and> p_auth_provider (user_info db' (cur\<lparr>last_login_at := Some (utcnow env)\<rparr>)) = auth_provider cur
    \<and> set (p_roles (user_info db' (cur\<lparr>last_login_at := Some (utcnow env)\<rparr>)))
        = role_name ` {r \<in> set (iam_role (concurrent env db)). assigned (concurrent env db) user r}
    \<and> cs' = Some (user_id user)
    \<and> iam_auth_session db' = iam_auth_session (concurrent env db)
    \<and> iam_auth_log db' = iam_auth_log (concurrent env db) @
         [\<lparr>log_user_id = Some (user_id user),
           event_type = ''login_success'', event_time = utcnow env,
           ip_address = remote_addr req, user_agent = user_agent_header req,
           details = ''Event: login_success, Success: True''\<rparr>]
    \<and> find (\<lambda>u. user_id u = user_id user) (iam_user_account db')
        = Some (cur\<lparr>last_login_at := Some (utcnow env)\<rparr>)"
proof -
  let ?cur = "cur\<lparr>last_login_at := Some (utcnow env)\<rparr>"
  define db2 where "db2 = (concurrent env db)\<lparr>iam_user_account :=
                map (\<lambda>u. if user_id u = user_id user then u\<lparr>last_login_at := Some (utcnow env)\<rparr> else u)
                    (iam_user_account (concurrent env db))\<rparr>"
  define db3 where "db3 = fst (log_auth_event env req db2 ''login_success'' (Some (user_id user)) True None)"
  have row: "find (\<lambda>u. user_id u = user_id user) (iam_user_account db3) = Some ?cur"
    by (simp add: db3_def db2_def log_auth_event_tables find_map_last_login [OF fresh])
  have reread: "refresh env None db3 user = Inr ?cur"
    by (simp add: refresh_def row)
  have "api_login_try env db cs req =
          (Inr (Reply (Login_body (user_info db3 ?cur)) 200), db3, login_user user)"
    using api_login_try_committed [OF body nonempty store_ok(1-3) found pw_ok fresh eligible db2_def, of cs]
      reread
    by (simp add: split_beta db3_def log_auth_event_clean [OF store_ok(4)])
  then have "api_login env db cs req =
          (Reply (Login_body (user_info db3 ?cur)) 200, db3, Some (user_id user))"
    by (simp add: api_login_def login_user_def)
  from trans [OF res [symmetric] this]
  have r: "r = Reply (Login_body (user_info db3 ?cur)) 200"
    and db': "db' = db3"
    and cs': "cs' = Some (user_id user)"
    by blast+
  have uid: "user_id ?cur = user_id user"
    using find_user_id [OF fresh] by simp
  have info: "p_user_id (user_info db3 ?cur) = user_id user"
    "p_username (user_info db3 ?cur) = username cur"
    "p_email (user_info db3 ?cur) = email cur"
    "p_display_name (user_info db3 ?cur) = display_name cur"
    "p_auth_provider (user_info db3 ?cur) = auth_provider cur"
    using uid by (simp_all add: user_info_def)
  have tables: "iam_role db3 = iam_role (concurrent env db)"
    "iam_user_role db3 = iam_user_role (concurrent env db)"
    "iam_auth_session db3 = iam_auth_session (concurrent env db)"
    by (simp_all add: db3_def db2_def log_auth_event_tables)
  have "assigned db3 ?cur x = assigned (concurrent env db) user x" for x
    by (rule assigned_cong [OF tables(2) uid])
  then have names: "set (p_roles (user_info db3 ?cur))
        = role_name ` {r \<in> set (iam_role (concurrent env db)). assigned (concurrent env db) user r}"
    by (simp add: user_info_def set_roles tables(1))
  have logs: "iam_auth_log db3 = iam_auth_log (concurrent env db) @
         [\<lparr>log_user_id = Some (user_id user),
           event_type = ''login_success'', event_time = utcnow env,
           ip_address = remote_addr req, user_agent = user_agent_header req,
           details = ''Event: login_success, Success: True''\<rparr>]"
    by (simp add: db3_def db2_def log_auth_event_written [OF store_ok(4)] py_not_def str_bool_def)
  from r info names cs' tables(3) logs row show ?thesis
    unfolding db' by blast
qed

theorem api_login_success_witness:
  "get_json (req0 ''alice'' (JStr ''Secr3t!'')) = Some \<lparr>data_username = Some ''alice'', data_password = JStr ''Secr3t!''\<rparr>
   \<and> query_fault env0 = None \<and> execute_fault env0 = None \<and> commit_fault env0 = None \<and> audit_fault env0 = None
   \<and> find (\<lambda>u. username u = ''alice'') (iam_user_account store0) = Some alice
   \<and> verify_password env0 alice (JStr ''Secr3t!'') = Inr True
   \<and> find (\<lambda>u. user_id u = 1) (iam_user_account (concurrent env0 store0)) = Some alice
   \<and> is_active alice \<and> \<not> is_locked alice
   \<and> fst (api_login env0 store0 None (req0 ''alice'' (JStr ''Secr3t!''))) =
        Reply (Login_body \<lparr>p_user_id = 1, p_username = ''alice'', p_email = ''alice@example.com'',
                           p_display_name = ''Alice'', p_roles = [''admin''], p_auth_provider = ''local''\<rparr>) 200
   \<and> snd (snd (api_login env0 store0 None (req0 ''alice'' (JStr ''Secr3t!'')))) = Some 1
   \<and> iam_auth_session (fst (snd (api_login env0 store0 None (req0 ''alice'' (JStr ''Secr3t!''))))) = []
   \<and> iam_auth_log (fst (snd (api_login env0 store0 None (req0 ''alice'' (JStr ''Secr3t!''))))) =
        [\<lparr>log_user_id = Some 1, event_type = ''login_success'', event_time = 1000,
          ip_address = Some ''10.0.0.7'', user_agent = Some ''curl'',
          details = ''Event: login_success, Success: True''\<rparr>]
   \<and> find (\<lambda>u. user_id u = 1) (iam_user_account (fst (snd (api_login env0 store0 None (req0 ''alice'' (JStr ''Secr3t!''))))))
        = Some (alice\<lparr>last_login_at := Some 1000\<rparr>)"
proof -
  let ?out = "api_login env0 store0 None (req0 ''alice'' (JStr ''Secr3t!''))"
  have body: "get_json (req0 ''alice'' (JStr ''Secr3t!'')) = Some \<lparr>data_username = Some ''alice'', data_password = JStr ''Secr3t!''\<rparr>"
    by (simp add: req0_def)
  have ne: "''alice'' \<noteq> []" "\<not> falsy (JStr ''Secr3t!'')"
    by simp_all
  have ok: "query_fault env0 = None" "execute_fault env0 = None" "commit_fault env0 = None"
    "audit_fault env0 = None"
    by (simp_all add: env0_def)
  have found: "find (\<lambda>u. username u = ''alice'') (iam_user_account store0) = Some alice"
    by (simp add: store0_def alice_def)
  have pw: "verify_password env0 alice (JStr ''Secr3t!'') = Inr True"
    by (simp add: verify_password_def env0_def alice_def)
  have fresh: "find (\<lambda>u. user_id u = user_id alice) (iam_user_account (concurrent env0 store0)) = Some alice"
    by (simp add: env0_def store0_def alice_def)
  have flags: "is_active alice" "\<not> is_locked alice" "user_id alice = 1" "utcnow env0 = 1000"
    by (simp_all add: alice_def env0_def)
  have out: "?out = (fst ?out, fst (snd ?out), snd (snd ?out))"
    by simp
  note th = api_login_success [OF body ne ok found pw fresh flags(1,2) out]
  have payload: "fst ?out =
        Reply (Login_body \<lparr>p_user_id = 1, p_username = ''alice'', p_email = ''alice@example.com'',
                           p_display_name = ''Alice'', p_roles = [''admin''], p_auth_provider = ''local''\<rparr>) 200"
    by (simp add: model_defs example_defs)
  from th have rest: "snd (snd ?out) = Some 1"
    "iam_auth_session (fst (snd ?out)) = []"
    "iam_auth_log (fst (snd ?out)) =
        [\<lparr>log_user_id = Some 1, event_type = ''login_success'', event_time = 1000,
          ip_address = Some ''10.0.0.7'', user_agent = Some ''curl'',
          details = ''Event: login_success, Success: True''\<rparr>]"
    "find (\<lambda>u. user_id u = 1) (iam_user_account (fst (snd ?out))) = Some (alice\<lparr>last_login_at := Some 1000\<rparr>)"
    by (simp_all add: flags(3,4) env0_def store0_def req0_def)
  from body ok found pw fresh flags payload rest show ?thesis
    by (simp only: flags(3)) blast
qed

text \<open>
  The claim as first stated asks for exactly one new AuthSession row. In the example
  scenario the login of \<open>alice\<close> succeeds and the table of AuthSession rows stays empty.
\<close>

theorem api_login_auth_session_counterexample:
  "find (\<lambda>u. username u = ''alice'') (iam_user_account store0) = Some alice
   \<and> verify_password env0 alice (JStr ''Secr3t!'') = Inr True \<and> is_active alice \<and> \<not> is_locked alice
   \<and> fst (api_login env0 store0 None (req0 ''alice'' (JStr ''Secr3t!''))) =
        Reply (Login_body \<lparr>p_user_id = 1, p_username = ''alice'', p_email = ''alice@example.com'',
                           p_display_name = ''Alice'', p_roles = [''admin''], p_auth_provider = ''local''\<rparr>) 200
   \<and> iam_auth_session store0 = []
   \<and> iam_auth_session (fst (snd (api_login env0 store0 None (req0 ''alice'' (JStr ''Secr3t!''))))) = []
   \<and> length (iam_auth_session (fst (snd (api_login env0 store0 None (req0 ''alice'' (JStr ''Secr3t!'')))))) \<noteq>
        length (iam_auth_session store0) + 1"
  by (simp add: model_defs example_defs)

subsection \<open>Rejected credentials\<close>




subsection \<open>Disabled or locked account\<close>

text \<open>
  Claim C6. A login attempt with valid credentials whose freshly re-read row is not
  (active and not locked), the store calls not failing, is answered with status 403;
  exactly one \<open>login_failed\<close> row with the reason \<open>locked/inactive\<close> (the text
  \<open>Account locked/inactive\<close>) is appended to the audit table. The decision reads the
  row \<open>cur\<close> of the store as it stands at the re-read; the flags of the user object
  \<open>user\<close> read by the lookup play no part.
\<close>

theorem api_login_account_disabled:
  assumes body: "get_json req = Some \<lparr>data_username = Some uname, data_password = pw\<rparr>"
    and nonempty: "uname \<noteq> []" "\<not> falsy pw"
    and store_ok: "query_fault env = None" "execute_fault env = None" "audit_fault env = None"
    and found: "find (\<lambda>u. username u = uname) (iam_user_account db) = Some user"
    and pw_ok: "verify_password env user pw = Inr True"
    and fresh: "find (\<lambda>u. user_id u = user_id user) (iam_user_account (concurrent env db)) = Some cur"
    and ineligible: "\<not> (is_active cur \<and> \<not> is_locked cur)"
    and res: "api_login env db cs req = (r, db', cs')"
  shows "r = Reply (Error_body ''Account disabled or locked'') 403
    \<and> iam_auth_log db' = iam_auth_log (concurrent env db) @
         [\<lparr>log_user_id = Some (user_id user),
           event_type = ''login_failed'', event_time = utcnow env,
           ip_address = remote_addr req, user_agent = user_agent_header req,
           details = ''Account locked/inactive''\<rparr>]
    \<and> suffix ''locked/inactive'' (details (last (iam_auth_log db')))
    \<and> iam_auth_session db' = iam_auth_session (concurrent env db)
    \<and> iam_user_account db' = iam_user_account (concurrent env db)
    \<and> cs' = cs"
proof -
  have "api_login_try env db cs req =
          (Inr (Reply (Error_body ''Account disabled or locked'') 403),
           fst (log_auth_event env req (concurrent env db) ''login_failed'' (Some (user_id user)) False
                  (Some ''Account locked/inactive'')),
           cs)"
    using api_login_try_fresh_status [OF body nonempty store_ok(1,2) found pw_ok fresh] ineligible
    by simp
  then have "api_login env db cs req =
          (Reply (Error_body ''Account disabled or locked'') 403,
           fst (log_auth_event env req (concurrent env db) ''login_failed'' (Some (user_id user)) False
                  (Some ''Account locked/inactive'')),
           cs)"
    by (simp add: api_login_def)
  from trans [OF res [symmetric] this]
  have "r = Reply (Error_body ''Account disabled or locked'') 403"
    and db': "db' = fst (log_auth_event env req (concurrent env db) ''login_failed'' (Some (user_id user)) False
             (Some ''Account locked/inactive''))"
    and "cs' = cs"
    by blast+
  moreover have "suffix ''locked/inactive'' ''Account locked/inactive''"
    by (simp add: suffix_def)
  ultimately show ?thesis using store_ok(3)
    by (simp add: log_auth_event_tables log_auth_event_written py_not_def str_of_def)
qed

theorem api_login_account_disabled_witness:
  "get_json (req0 ''alice'' (JStr ''Secr3t!'')) = Some \<lparr>data_username = Some ''alice'', data_password = JStr ''Secr3t!''\<rparr>
   \<and> query_fault env0 = None \<and> execute_fault env0 = None \<and> audit_fault env0 = None
   \<and> find (\<lambda>u. username u = ''alice'') (iam_user_account store0) = Some alice
   \<and> is_active alice \<and> \<not> is_locked alice
   \<and> verify_password env0 alice (JStr ''Secr3t!'') = Inr True
   \<and> find (\<lambda>u. user_id u = 1) (iam_user_account (set_status store0 1 True True))
        = Some (alice\<lparr>is_active := True, is_locked := True\<rparr>)
   \<and> fst (api_login (env0\<lparr>concurrent := \<lambda>db. set_status db 1 True True\<rparr>) store0 None (req0 ''alice'' (JStr ''Secr3t!'')))
        = Reply (Error_body ''Account disabled or locked'') 403
   \<and> iam_auth_log (fst (snd (api_login (env0\<lparr>concurrent := \<lambda>db. set_status db 1 True True\<rparr>) store0 None (req0 ''alice'' (JStr ''Secr3t!''))))) =
        [\<lparr>log_user_id = Some 1, event_type = ''login_failed'', event_time = 1000,
          ip_address = Some ''10.0.0.7'', user_agent = Some ''curl'',
          details = ''Account locked/inactive''\<rparr>]
   \<and> iam_auth_session (fst (snd (api_login (env0\<lparr>concurrent := \<lambda>db. set_status db 1 True True\<rparr>) store0 None (req0 ''alice'' (JStr ''Secr3t!''))))) = []
   \<and> snd (snd (api_login (env0\<lparr>concurrent := \<lambda>db. set_status db 1 True True\<rparr>) store0 None (req0 ''alice'' (JStr ''Secr3t!'')))) = None"
proof -
  let ?env = "env0\<lparr>concurrent := \<lambda>db. set_status db 1 True True\<rparr>"
  let ?out = "api_login ?env store0 None (req0 ''alice'' (JStr ''Secr3t!''))"
  have body: "get_json (req0 ''alice'' (JStr ''Secr3t!'')) = Some \<lparr>data_username = Some ''alice'', data_password = JStr ''Secr3t!''\<rparr>"
    by (simp add: req0_def)
  have ne: "''alice'' \<noteq> []" "\<not> falsy (JStr ''Secr3t!'')"
    by simp_all
  have ok: "query_fault ?env = None" "execute_fault ?env = None" "audit_fault ?env = None"
    and ok0: "query_fault env0 = None" "execute_fault env0 = None" "audit_fault env0 = None"
    by (simp_all add: env0_def)
  have found: "find (\<lambda>u. username u = ''alice'') (iam_user_account store0) = Some alice"
    by (simp add: store0_def alice_def)
  have pw: "verify_password ?env alice (JStr ''Secr3t!'') = Inr True"
    and pw0: "verify_password env0 alice (JStr ''Secr3t!'') = Inr True"
    by (simp_all add: verify_password_def env0_def alice_def)
  have locked: "find (\<lambda>u. user_id u = 1) (iam_user_account (set_status store0 1 True True))
        = Some (alice\<lparr>is_active := True, is_locked := True\<rparr>)"
    by (simp add: set_status_def store0_def alice_def)
  have fresh: "find (\<lambda>u. user_id u = user_id alice) (iam_user_account (concurrent ?env store0))
        = Some (alice\<lparr>is_active := True, is_locked := True\<rparr>)"
    using locked by (simp add: alice_def)
  have flags: "is_active alice" "\<not> is_locked alice"
    and now: "\<not> (is_active (alice\<lparr>is_active := True, is_locked := True\<rparr>)
              \<and> \<not> is_locked (alice\<lparr>is_active := True, is_locked := True\<rparr>))"
    by (simp_all add: alice_def)
  have out: "?out = (fst ?out, fst (snd ?out), snd (snd ?out))"
    by simp
  note th = api_login_account_disabled [OF body ne ok found pw fresh now out]
  from th have rest: "fst ?out = Reply (Error_body ''Account disabled or locked'') 403"
    "iam_auth_log (fst (snd ?out)) =
        [\<lparr>log_user_id = Some 1, event_type = ''login_failed'', event_time = 1000,
          ip_address = Some ''10.0.0.7'', user_agent = Some ''curl'',
          details = ''Account locked/inactive''\<rparr>]"
    "iam_auth_session (fst (snd ?out)) = []"
    "snd (snd ?out) = None"
    by (simp_all add: set_status_def env0_def store0_def req0_def alice_def)
  from body ok0 found flags pw0 locked rest show ?thesis
    by blast
qed

subsection \<open>Unknown user and wrong password\<close>

text \<open>
  Where the password check returns a verdict, the two failures look the same: an unknown
  username and a rejected password both give status 401 with the message
  \<open>Invalid credentials\<close>. Where the check raises, the exception leaves the block and
  the handler answers status 500; this happens for a known username only, since the
  check runs only after the lookup found the user.
\<close>

lemma api_login_401:
  assumes body: "get_json req = Some \<lparr>data_username = Some uname, data_password = pw\<rparr>"
    and nonempty: "uname \<noteq> []" "\<not> falsy pw"
    and store_ok: "query_fault env = None"
    and bad: "find (\<lambda>u. username u = uname) (iam_user_account db) = None
              \<or> (\<exists>user. find (\<lambda>u. username u = uname) (iam_user_account db) = Some user
                    \<and> verify_password env user pw = Inr False)"
  shows "fst (api_login env db cs req) = Reply (Error_body ''Invalid credentials'') 401"
proof (cases "find (\<lambda>u. username u = uname) (iam_user_account db)")
  case None
  show ?thesis
    by (simp add: api_login_def api_login_try_unknown [OF body nonempty store_ok None])
next
  case (Some user)
  with bad have "verify_password env user pw = Inr False" by auto
  then show ?thesis
    by (simp add: api_login_def api_login_try_bad_password [OF body nonempty store_ok Some])
qed

lemma api_login_check_raises:
  assumes "get_json req = Some \<lparr>data_username = Some uname, data_password = pw\<rparr>"
    and "uname \<noteq> []" and "\<not> falsy pw"
    and "query_fault env = None"
    and "find (\<lambda>u. username u = uname) (iam_user_account db) = Some user"
    and "verify_password env user pw = Inl e"
  shows "api_login env db cs req = (Reply (Error_body (''Server error: '' @ e)) 500, db, cs)"
  by (simp add: api_login_def api_login_try_check_raises [OF assms])

text \<open>
  Claim C8 asks that a failed attempt with an unknown username and a failed attempt
  with a known username and a wrong password get identical replies. The code at a
  password the hash check cannot process, here the JSON number \<open>123\<close>: for the unknown
  username \<open>ghost\<close> the reply is status 401 with \<open>Invalid credentials\<close>; for the known
  username \<open>alice\<close> the check raises and the reply is status 500 with the text of the
  exception. The two replies differ, so the caller can tell that \<open>alice\<close> exists.
\<close>

theorem api_login_username_enumeration:
  "find (\<lambda>u. username u = ''ghost'') (iam_user_account store0) = None
   \<and> find (\<lambda>u. username u = ''alice'') (iam_user_account store0) = Some alice
   \<and> \<not> falsy (JNum 123)
   \<and> verify_password env0 alice (JNum 123) = Inl ''password is not a string''
   \<and> fst (api_login env0 store0 None (req0 ''ghost'' (JNum 123)))
       = Reply (Error_body ''Invalid credentials'') 401
   \<and> fst (api_login env0 store0 None (req0 ''alice'' (JNum 123)))
       = Reply (Error_body ''Server error: password is not a string'') 500
   \<and> fst (api_login env0 store0 None (req0 ''ghost'' (JNum 123)))
       \<noteq> fst (api_login env0 store0 None (req0 ''alice'' (JNum 123)))"
  by (simp add: model_defs example_defs)

subsection \<open>A failed audit write\<close>

text \<open>
  On the successful path the reply is built after the audit call, from attributes that
  the commits have expired. When the audit write raised, \<open>log_auth_event\<close> swallowed
  the exception without a rollback, the re-read raises, and the handler of the whole
  block answers status 500: the login has been established and \<open>last_login_at\<close>
  written, and the caller is told that the request failed.
\<close>

lemma api_login_audit_fault:
  assumes body: "get_json req = Some \<lparr>data_username = Some uname, data_password = pw\<rparr>"
    and nonempty: "uname \<noteq> []" "\<not> falsy pw"
    and store_ok: "query_fault env = None" "execute_fault env = None" "commit_fault env = None"
    and found: "find (\<lambda>u. username u = uname) (iam_user_account db) = Some user"
    and pw_ok: "verify_password env user pw = Inr True"
    and fresh: "find (\<lambda>u. user_id u = user_id user) (iam_user_account (concurrent env db)) = Some cur"
    and eligible: "is_active cur" "\<not> is_locked cur"
    and fault: "audit_fault env = Some e"
  shows "api_login env db cs req =
           (Reply (Error_body (''Server error: '' @ orm_error env (PendingRollbackError e))) 500,
            (concurrent env db)\<lparr>iam_user_account :=
                map (\<lambda>u. if user_id u = user_id user then u\<lparr>last_login_at := Some (utcnow env)\<rparr> else u)
                    (iam_user_account (concurrent env db))\<rparr>,
            Some (user_id user))"
  using api_login_try_committed [OF body nonempty store_ok found pw_ok fresh eligible refl, of cs]
  by (simp add: api_login_def log_auth_event_fault [OF fault] refresh_def login_user_def)

text \<open>
  Claim C9 asks that a failure of the audit write never reaches the caller: the outcome
  of the triggering operation is the same whether the write succeeds or fails. The code
  at a valid login of \<open>alice\<close>: with a working audit write the reply is status 200
  with her identity; with an audit write that raises, the reply is status 500 with the
  text of the error of the session that was not rolled back, while the client's session
  carries her id and her row has \<open>last_login_at\<close> set.
\<close>

theorem api_login_audit_failure_propagates:
  "audit_fault (env0\<lparr>audit_fault := Some ''disk full''\<rparr>) = Some ''disk full''
   \<and> fst (api_login env0 store0 None (req0 ''alice'' (JStr ''Secr3t!''))) =
        Reply (Login_body \<lparr>p_user_id = 1, p_username = ''alice'', p_email = ''alice@example.com'',
                           p_display_name = ''Alice'', p_roles = [''admin''], p_auth_provider = ''local''\<rparr>) 200
   \<and> fst (api_login (env0\<lparr>audit_fault := Some ''disk full''\<rparr>) store0 None (req0 ''alice'' (JStr ''Secr3t!''))) =
        Reply (Error_body ''Server error: session needs rollback after: disk full'') 500
   \<and> snd (snd (api_login (env0\<lparr>audit_fault := Some ''disk full''\<rparr>) store0 None (req0 ''alice'' (JStr ''Secr3t!''))))
       = Some 1
   \<and> find (\<lambda>u. user_id u = 1)
        (iam_user_account (fst (snd (api_login (env0\<lparr>audit_fault := Some ''disk full''\<rparr>) store0 None
                                        (req0 ''alice'' (JStr ''Secr3t!''))))))
       = Some (alice\<lparr>last_login_at := Some 1000\<rparr>)
   \<and> iam_auth_log (fst (snd (api_login (env0\<lparr>audit_fault := Some ''disk full''\<rparr>) store0 None
                                  (req0 ''alice'' (JStr ''Secr3t!''))))) = []"
  by (simp add: model_defs example_defs)

subsection \<open>Store failures\<close>

lemma api_login_query_fault:
  assumes "get_json req = Some \<lparr>data_username = Some uname, data_password = pw\<rparr>"
    and "uname \<noteq> []" and "\<not> falsy pw"
    and "query_fault env = Some e"
  shows "api_login env db cs req = (Reply (Error_body (''Server error: '' @ e)) 500, db, cs)"
  by (simp add: api_login_def api_login_try_query_fault [OF assms])

lemma api_login_execute_fault:
  assumes "get_json req = Some \<lparr>data_username = Some uname, data_password = pw\<rparr>"
    and "uname \<noteq> []" and "\<not> falsy pw"
    and "query_fault env = None"
    and "find (\<lambda>u. username u = uname) (iam_user_account db) = Some user"
    and "verify_password env user pw = Inr True"
    and "execute_fault env = Some e"
  shows "api_login env db cs req =
           (Reply (Error_body (''Server error: '' @ e)) 500, concurrent env db, cs)"
  by (simp add: api_login_def api_login_try_execute_fault [OF assms])

lemma api_login_commit_fault:
  assumes "get_json req = Some \<lparr>data_username = Some uname, data_password = pw\<rparr>"
    and "uname \<noteq> []" and "\<not> falsy pw"
    and "query_fault env = None" and "execute_fault env = None"
    and "find (\<lambda>u. username u = uname) (iam_user_account db) = Some user"
    and "verify_password env user pw = Inr True"
    and "find (\<lambda>u. user_id u = user_id user) (iam_user_account (concurrent env db)) = Some cur"
    and "is_active cur" and "\<not> is_locked cur"
    and "commit_fault env = Some e"
  shows "api_login env db cs req =
           (Reply (Error_body (''Server error: '' @ e)) 500, concurrent env db, Some (user_id user))"
  using assms(9-11)
  by (simp add: api_login_def api_login_try_fresh_status [OF assms(1-8)] commit_last_login_def
      login_user_def)

lemma api_login_no_row:
  assumes "get_json req = Some \<lparr>data_username = Some uname, data_password = pw\<rparr>"
    and "uname \<noteq> []" and "\<not> falsy pw"
    and "query_fault env = None"
    and "find (\<lambda>u. username u = uname) (iam_user_account db) = Some user"
    and "verify_password env user pw = Inr True"
    and ok: "execute_fault env = None" "commit_fault env = None"
    and gone: "find (\<lambda>u. user_id u = user_id user) (iam_user_account (concurrent env db)) = None"
  shows "api_login env db cs req =
           (Reply (Error_body (''Server error: '' @ orm_error env StaleDataError)) 500,
            concurrent env db, Some (user_id user))"
proof -
  have q: "execute_status_query env (concurrent env db) (user_id user) = Inr None"
    using gone by (simp add: execute_status_query_ok [OF ok(1)])
  show ?thesis
    by (simp add: api_login_def api_login_try_status [OF assms(1-6) q] account_active_def
        commit_last_login_stale [OF ok(2) gone] login_user_def)
qed

lemma login_submit_status:
  assumes "query_fault env = None"
    and "find (\<lambda>u. username u = uname) (iam_user_account db) = Some user"
    and "verify_password env user (form_value fpw) = Inr True"
  shows "login_submit env db cs (Some uname) fpw =
          (case execute_status_query env (concurrent env db) (user_id user) of
             Inl e \<Rightarrow> Inl e
           | Inr result \<Rightarrow>
               if \<not> account_active result
               then Inr (Redirect ''auth.login_page'' (Some (''Account disabled / locked'', ''error'')),
                         concurrent env db, cs)
               else (case commit_last_login env (concurrent env db) user of
                       Inl e \<Rightarrow> Inl e
                     | Inr db2 \<Rightarrow> Inr (Redirect ''admin.dashboard'' None, db2, login_user user)))"
  using assms
  by (simp add: login_submit_def query_first_by_username_def Let_def)

lemma login_submit_no_row:
  assumes "query_fault env = None"
    and "find (\<lambda>u. username u = uname) (iam_user_account db) = Some user"
    and "verify_password env user (form_value fpw) = Inr True"
    and ok: "execute_fault env = None" "commit_fault env = None"
    and gone: "find (\<lambda>u. user_id u = user_id user) (iam_user_account (concurrent env db)) = None"
  shows "login_submit env db cs (Some uname) fpw = Inl (orm_error env StaleDataError)"
proof -
  have q: "execute_status_query env (concurrent env db) (user_id user) = Inr None"
    using gone by (simp add: execute_status_query_ok [OF ok(1)])
  show ?thesis
    by (simp add: login_submit_status [OF assms(1-3)] q account_active_def
        commit_last_login_stale [OF ok(2) gone])
qed

lemma login_submit_execute_fault:
  assumes "query_fault env = None"
    and "find (\<lambda>u. username u = uname) (iam_user_account db) = Some user"
    and "verify_password env user (form_value fpw) = Inr True"
    and "execute_fault env = Some e"
  shows "login_submit env db cs (Some uname) fpw = Inl e"
  by (simp add: login_submit_status [OF assms(1-3)] execute_status_query_fault [OF assms(4)])

lemma is_active_account_fault:
  "execute_fault env = Some e \<Longrightarrow> is_active_account env db self"
  by (simp add: is_active_account_def execute_status_query_fault)

lemma is_active_account_no_row:
  "execute_fault env = None \<Longrightarrow>
   find (\<lambda>u. user_id u = user_id self) (iam_user_account db) = None \<Longrightarrow>
   is_active_account env db self"
  by (simp add: is_active_account_def execute_status_query_ok account_active_def)

text \<open>
  Claim C3, as amended. A failure of a data-store call is not reported as a distinct
  StoreUnavailable error. In \<open>api_login\<close>, for a body with a non-empty username and a
  password, an exception of the user lookup, of the status re-read or of the commit is
  caught by the handler of the whole block and answered with status 500 and the message
  \<open>Server error: \<close> followed by the exception's text (after a failed commit the
  client's session already carries the user's id). In \<open>is_active_account\<close> an
  exception of the status query is swallowed and the account is reported as active.
\<close>

theorem store_failure_handling:
  assumes body: "get_json req = Some \<lparr>data_username = Some uname, data_password = pw\<rparr>"
    and nonempty: "uname \<noteq> []" "\<not> falsy pw"
  shows "(query_fault env = Some e \<longrightarrow>
            api_login env db cs req = (Reply (Error_body (''Server error: '' @ e)) 500, db, cs))
     \<and> (query_fault env = None
          \<and> find (\<lambda>u. username u = uname) (iam_user_account db) = Some user
          \<and> verify_password env user pw = Inr True
          \<and> execute_fault env = Some e \<longrightarrow>
            api_login env db cs req =
              (Reply (Error_body (''Server error: '' @ e)) 500, concurrent env db, cs))
     \<and> (query_fault env = None
          \<and> find (\<lambda>u. username u = uname) (iam_user_account db) = Some user
          \<and> verify_password env user pw = Inr True
          \<and> execute_fault env = None
          \<and> find (\<lambda>u. user_id u = user_id user) (iam_user_account (concurrent env db)) = Some cur
          \<and> is_active cur \<and> \<not> is_locked cur
          \<and> commit_fault env = Some e \<longrightarrow>
            api_login env db cs req =
              (Reply (Error_body (''Server error: '' @ e)) 500, concurrent env db, Some (user_id user)))
     \<and> (execute_fault env' = Some e \<longrightarrow>
            is_active_account env' db' self \<and> is_active_hook env' db' self)"
  using api_login_query_fault [OF body nonempty, of env e db cs]
    api_login_execute_fault [OF body nonempty, of env db user e cs]
    api_login_commit_fault [OF body nonempty, of env db user cur e cs]
    is_active_account_fault [of env' e db' self]
  by (simp add: is_active_hook_def)

theorem store_failure_handling_witness:
  "query_fault (env0\<lparr>query_fault := Some ''timeout''\<rparr>) = Some ''timeout''
   \<and> api_login (env0\<lparr>query_fault := Some ''timeout''\<rparr>) store0 None (req0 ''alice'' (JStr ''Secr3t!''))
       = (Reply (Error_body ''Server error: timeout'') 500, store0, None)
   \<and> execute_fault (env0\<lparr>execute_fault := Some ''timeout''\<rparr>) = Some ''timeout''
   \<and> api_login (env0\<lparr>execute_fault := Some ''timeout''\<rparr>) store0 None (req0 ''alice'' (JStr ''Secr3t!''))
       = (Reply (Error_body ''Server error: timeout'') 500, store0, None)
   \<and> commit_fault (env0\<lparr>commit_fault := Some ''deadlock''\<rparr>) = Some ''deadlock''
   \<and> api_login (env0\<lparr>commit_fault := Some ''deadlock''\<rparr>) store0 None (req0 ''alice'' (JStr ''Secr3t!''))
       = (Reply (Error_body ''Server error: deadlock'') 500, store0, Some 1)
   \<and> is_active_account (env0\<lparr>execute_fault := Some ''timeout''\<rparr>) store0 alice
   \<and> is_active_hook (env0\<lparr>execute_fault := Some ''timeout''\<rparr>) store0 alice"
proof -
  have b: "get_json (req0 ''alice'' (JStr ''Secr3t!'')) = Some \<lparr>data_username = Some ''alice'', data_password = JStr ''Secr3t!''\<rparr>"
    by (simp add: req0_def)
  have ne: "''alice'' \<noteq> []" "\<not> falsy (JStr ''Secr3t!'')"
    by simp_all
  note th = store_failure_handling [OF b ne]
  have q: "query_fault (env0\<lparr>query_fault := Some ''timeout''\<rparr>) = Some ''timeout''"
    by simp
  have x: "execute_fault (env0\<lparr>execute_fault := Some ''timeout''\<rparr>) = Some ''timeout''"
    by simp
  have c: "commit_fault (env0\<lparr>commit_fault := Some ''deadlock''\<rparr>) = Some ''deadlock''"
    by simp
  have found: "find (\<lambda>u. username u = ''alice'') (iam_user_account store0) = Some alice"
    by (simp add: store0_def alice_def)
  have fresh: "find (\<lambda>u. user_id u = user_id alice) (iam_user_account store0) = Some alice"
    by (simp add: store0_def alice_def)
  have flags: "is_active alice" "\<not> is_locked alice" "user_id alice = 1"
    by (simp_all add: alice_def)
  have pw: "verify_password (env0\<lparr>execute_fault := Some ''timeout''\<rparr>) alice (JStr ''Secr3t!'') = Inr True"
    "verify_password (env0\<lparr>commit_fault := Some ''deadlock''\<rparr>) alice (JStr ''Secr3t!'') = Inr True"
    by (simp_all add: verify_password_def env0_def alice_def)
  have r1: "api_login (env0\<lparr>query_fault := Some ''timeout''\<rparr>) store0 None (req0 ''alice'' (JStr ''Secr3t!''))
       = (Reply (Error_body ''Server error: timeout'') 500, store0, None)"
    using th [where env = "env0\<lparr>query_fault := Some ''timeout''\<rparr>" and e = "''timeout''"
               and db = store0 and cs = None, THEN conjunct1] q
    by simp
  have r2: "api_login (env0\<lparr>execute_fault := Some ''timeout''\<rparr>) store0 None (req0 ''alice'' (JStr ''Secr3t!''))
       = (Reply (Error_body ''Server error: timeout'') 500, store0, None)"
    using th [where env = "env0\<lparr>execute_fault := Some ''timeout''\<rparr>" and e = "''timeout''"
               and db = store0 and cs = None and user = alice, THEN conjunct2, THEN conjunct1]
      x found pw(1)
    by (simp add: env0_def)
  have r3: "api_login (env0\<lparr>commit_fault := Some ''deadlock''\<rparr>) store0 None (req0 ''alice'' (JStr ''Secr3t!''))
       = (Reply (Error_body ''Server error: deadlock'') 500, store0, Some 1)"
    using th [where env = "env0\<lparr>commit_fault := Some ''deadlock''\<rparr>" and e = "''deadlock''"
               and db = store0 and cs = None and user = alice and cur = alice,
               THEN conjunct2, THEN conjunct2, THEN conjunct1]
      c found pw(2) fresh flags
    by (simp add: env0_def)
  have r4: "is_active_account (env0\<lparr>execute_fault := Some ''timeout''\<rparr>) store0 alice
     \<and> is_active_hook (env0\<lparr>execute_fault := Some ''timeout''\<rparr>) store0 alice"
    using th [where env' = "env0\<lparr>execute_fault := Some ''timeout''\<rparr>" and e = "''timeout''"
               and db' = store0 and self = alice,
               THEN conjunct2, THEN conjunct2, THEN conjunct2] x
    by simp
  from q x c r1 r2 r3 r4 show ?thesis by blast
qed

text \<open>
  The claim as first stated says that a failed store call is never treated as a default
  result. For a locked account, \<open>is_active_account\<close> answers False when the status
  query works and True when the query raises.
\<close>

theorem is_active_account_fault_counterexample:
  "execute_fault (env0\<lparr>execute_fault := Some ''timeout''\<rparr>) = Some ''timeout''
   \<and> find (\<lambda>u. user_id u = 1) (iam_user_account (set_status store0 1 True True))
       = Some (alice\<lparr>is_active := True, is_locked := True\<rparr>)
   \<and> \<not> is_active_account env0 (set_status store0 1 True True) alice
   \<and> is_active_account (env0\<lparr>execute_fault := Some ''timeout''\<rparr>) (set_status store0 1 True True) alice"
  by (simp add: model_defs example_defs)

subsection \<open>Missing status row and failing status query\<close>

text \<open>
  Claim C4, as amended. When the fresh status query returns no row for the user's id, the
  status decision treats the account as active and not locked: \<open>is_active_account\<close>
  and the method \<open>is_active\<close> report the account as eligible, and a login with valid
  credentials passes the status check and reaches \<open>login_user\<close>. The login is not
  completed, though: the commit of \<open>last_login_at\<close> that follows matches no row and
  raises, so \<open>api_login\<close> answers status 500 (the client's session already carrying
  the user's id) and \<open>login_submit\<close> lets the exception leave the view. When the
  status query raises, \<open>is_active_account\<close> and \<open>is_active\<close> again report the
  account as eligible, while a login stops before \<open>login_user\<close>: \<open>api_login\<close>
  answers status 500 with the exception's text and \<open>login_submit\<close> lets the
  exception leave the view.
\<close>

theorem status_query_fail_open:
  assumes body: "get_json req = Some \<lparr>data_username = Some uname, data_password = pw\<rparr>"
    and nonempty: "uname \<noteq> []" "\<not> falsy pw"
    and lookup_ok: "query_fault env = None"
    and found: "find (\<lambda>u. username u = uname) (iam_user_account db) = Some user"
    and pw_ok: "verify_password env user pw = Inr True"
    and form_ok: "verify_password env user (form_value fpw) = Inr True"
  shows "account_active None
     \<and> (execute_fault env = None \<and> commit_fault env = None
          \<and> find (\<lambda>u. user_id u = user_id user) (iam_user_account (concurrent env db)) = None \<longrightarrow>
            api_login env db cs req =
              (Reply (Error_body (''Server error: '' @ orm_error env StaleDataError)) 500,
               concurrent env db, Some (user_id user))
            \<and> login_submit env db cs (Some uname) fpw = Inl (orm_error env StaleDataError))
     \<and> (execute_fault env = Some e \<longrightarrow>
            api_login env db cs req =
              (Reply (Error_body (''Server error: '' @ e)) 500, concurrent env db, cs)
            \<and> login_submit env db cs (Some uname) fpw = Inl e)
     \<and> (execute_fault env' = None
          \<and> find (\<lambda>u. user_id u = user_id self) (iam_user_account db') = None \<longrightarrow>
            is_active_account env' db' self \<and> is_active_hook env' db' self)
     \<and> (execute_fault env' = Some e' \<longrightarrow>
            is_active_account env' db' self \<and> is_active_hook env' db' self)"
proof (intro conjI impI)
  show "account_active None"
    by (simp add: account_active_def)
next
  assume h: "execute_fault env = None \<and> commit_fault env = None
          \<and> find (\<lambda>u. user_id u = user_id user) (iam_user_account (concurrent env db)) = None"
  then have ok: "execute_fault env = None" "commit_fault env = None"
    and gone: "find (\<lambda>u. user_id u = user_id user) (iam_user_account (concurrent env db)) = None"
    by simp_all
  show "api_login env db cs req =
              (Reply (Error_body (''Server error: '' @ orm_error env StaleDataError)) 500,
               concurrent env db, Some (user_id user))"
    by (rule api_login_no_row [OF body nonempty lookup_ok found pw_ok ok gone])
  show "login_submit env db cs (Some uname) fpw = Inl (orm_error env StaleDataError)"
    by (rule login_submit_no_row [OF lookup_ok found form_ok ok gone])
next
  assume x: "execute_fault env = Some e"
  show "api_login env db cs req =
              (Reply (Error_body (''Server error: '' @ e)) 500, concurrent env db, cs)"
    by (rule api_login_execute_fault [OF body nonempty lookup_ok found pw_ok x])
  show "login_submit env db cs (Some uname) fpw = Inl e"
    by (rule login_submit_execute_fault [OF lookup_ok found form_ok x])
next
  assume h: "execute_fault env' = None
          \<and> find (\<lambda>u. user_id u = user_id self) (iam_user_account db') = None"
  then have r: "is_active_account env' db' self"
    by (simp add: is_active_account_no_row)
  from r show "is_active_account env' db' self" .
  from r show "is_active_hook env' db' self" by (simp add: is_active_hook_def)
next
  assume x: "execute_fault env' = Some e'"
  then have r: "is_active_account env' db' self"
    by (rule is_active_account_fault)
  from r show "is_active_account env' db' self" .
  from r show "is_active_hook env' db' self" by (simp add: is_active_hook_def)
qed

theorem status_query_fail_open_witness:
  "get_json (req0 ''alice'' (JStr ''Secr3t!'')) = Some \<lparr>data_username = Some ''alice'', data_password = JStr ''Secr3t!''\<rparr>
   \<and> find (\<lambda>u. username u = ''alice'') (iam_user_account store0) = Some alice
   \<and> verify_password env0 alice (JStr ''Secr3t!'') = Inr True
   \<and> form_value (Some ''Secr3t!'') = JStr ''Secr3t!''
   \<and> find (\<lambda>u. user_id u = 1) (iam_user_account (delete_user store0 1)) = None
   \<and> api_login (env0\<lparr>concurrent := \<lambda>db. delete_user db 1\<rparr>) store0 None (req0 ''alice'' (JStr ''Secr3t!''))
       = (Reply (Error_body ''Server error: UPDATE matched 0 rows'') 500, delete_user store0 1, Some 1)
   \<and> login_submit (env0\<lparr>concurrent := \<lambda>db. delete_user db 1\<rparr>) store0 None (Some ''alice'') (Some ''Secr3t!'')
       = Inl ''UPDATE matched 0 rows''
   \<and> execute_fault (env0\<lparr>execute_fault := Some ''timeout''\<rparr>) = Some ''timeout''
   \<and> api_login (env0\<lparr>execute_fault := Some ''timeout''\<rparr>) store0 None (req0 ''alice'' (JStr ''Secr3t!''))
       = (Reply (Error_body ''Server error: timeout'') 500, store0, None)
   \<and> login_submit (env0\<lparr>execute_fault := Some ''timeout''\<rparr>) store0 None (Some ''alice'') (Some ''Secr3t!'')
       = Inl ''timeout''
   \<and> is_active_account env0 (delete_user store0 1) alice
   \<and> is_active_hook env0 (delete_user store0 1) alice
   \<and> is_active_account (env0\<lparr>execute_fault := Some ''timeout''\<rparr>) store0 alice
   \<and> is_active_hook (env0\<lparr>execute_fault := Some ''timeout''\<rparr>) store0 alice"
proof -
  let ?gone = "env0\<lparr>concurrent := \<lambda>db. delete_user db 1\<rparr>"
  let ?down = "env0\<lparr>execute_fault := Some ''timeout''\<rparr>"
  have b: "get_json (req0 ''alice'' (JStr ''Secr3t!'')) = Some \<lparr>data_username = Some ''alice'', data_password = JStr ''Secr3t!''\<rparr>"
    by (simp add: req0_def)
  have ne: "''alice'' \<noteq> []" "\<not> falsy (JStr ''Secr3t!'')"
    by simp_all
  have found: "find (\<lambda>u. username u = ''alice'') (iam_user_account store0) = Some alice"
    by (simp add: store0_def alice_def)
  have gone: "find (\<lambda>u. user_id u = 1) (iam_user_account (delete_user store0 1)) = None"
    by (simp add: delete_user_def store0_def alice_def carol_def)
  have uid: "user_id alice = 1"
    by (simp add: alice_def)
  have fv: "form_value (Some ''Secr3t!'') = JStr ''Secr3t!''"
    by (simp add: form_value_def)
  have pw: "verify_password env0 alice (JStr ''Secr3t!'') = Inr True"
    "verify_password ?gone alice (JStr ''Secr3t!'') = Inr True"
    "verify_password ?down alice (JStr ''Secr3t!'') = Inr True"
    by (simp_all add: verify_password_def env0_def alice_def)
  have fpw: "verify_password ?gone alice (form_value (Some ''Secr3t!'')) = Inr True"
    "verify_password ?down alice (form_value (Some ''Secr3t!'')) = Inr True"
    by (simp_all add: fv pw)
  have q: "query_fault ?gone = None" "query_fault ?down = None"
    by (simp_all add: env0_def)
  have texts: "orm_error ?gone StaleDataError = ''UPDATE matched 0 rows''"
    "concurrent ?gone store0 = delete_user store0 1" "concurrent ?down store0 = store0"
    "execute_fault ?gone = None" "commit_fault ?gone = None" "execute_fault env0 = None"
    by (simp_all add: env0_def)
  note gone_th = status_query_fail_open [OF b ne q(1) found pw(2) fpw(1),
      where cs = None and env' = env0 and db' = "delete_user store0 1" and self = alice]
  note fault_th = status_query_fail_open [OF b ne q(2) found pw(3) fpw(2),
      where cs = None and e = "''timeout''" and env' = ?down
        and e' = "''timeout''" and db' = store0 and self = alice]
  have x: "execute_fault ?down = Some ''timeout''"
    by simp
  have r1: "api_login ?gone store0 None (req0 ''alice'' (JStr ''Secr3t!''))
       = (Reply (Error_body ''Server error: UPDATE matched 0 rows'') 500, delete_user store0 1, Some 1)
     \<and> login_submit ?gone store0 None (Some ''alice'') (Some ''Secr3t!'') = Inl ''UPDATE matched 0 rows''"
    using gone_th [THEN conjunct2, THEN conjunct1] gone uid texts
    by simp
  have r2: "api_login ?down store0 None (req0 ''alice'' (JStr ''Secr3t!''))
       = (Reply (Error_body ''Server error: timeout'') 500, store0, None)
     \<and> login_submit ?down store0 None (Some ''alice'') (Some ''Secr3t!'') = Inl ''timeout''"
    using fault_th [THEN conjunct2, THEN conjunct2, THEN conjunct1] x texts(3)
    by simp
  have r3: "is_active_account env0 (delete_user store0 1) alice
     \<and> is_active_hook env0 (delete_user store0 1) alice"
    using gone_th [THEN conjunct2, THEN conjunct2, THEN conjunct2, THEN conjunct1] gone uid texts(6)
    by simp
  have r4: "is_active_account ?down store0 alice \<and> is_active_hook ?down store0 alice"
    using fault_th [THEN conjunct2, THEN conjunct2, THEN conjunct2, THEN conjunct2] x
    by simp
  from b found pw(1) fv gone r1 r2 r3 r4 x show ?thesis
    by blast
qed

text \<open>
  The claim as first stated lets the login proceed and the operation not fail. In the
  example scenario with valid credentials, a status query that raises makes
  \<open>api_login\<close> answer status 500 with the client's session left empty, and a status
  query that finds no row makes \<open>api_login\<close> answer status 500 as well.
\<close>

theorem api_login_status_fault_counterexample:
  "find (\<lambda>u. username u = ''alice'') (iam_user_account store0) = Some alice
   \<and> verify_password env0 alice (JStr ''Secr3t!'') = Inr True
   \<and> execute_fault (env0\<lparr>execute_fault := Some ''timeout''\<rparr>) = Some ''timeout''
   \<and> fst (api_login (env0\<lparr>execute_fault := Some ''timeout''\<rparr>) store0 None (req0 ''alice'' (JStr ''Secr3t!'')))
       = Reply (Error_body ''Server error: timeout'') 500
   \<and> snd (snd (api_login (env0\<lparr>execute_fault := Some ''timeout''\<rparr>) store0 None (req0 ''alice'' (JStr ''Secr3t!''))))
       = None
   \<and> execute_status_query env0 (delete_user store0 1) 1 = Inr None
   \<and> fst (api_login (env0\<lparr>concurrent := \<lambda>db. delete_user db 1\<rparr>) store0 None (req0 ''alice'' (JStr ''Secr3t!'')))
       = Reply (Error_body ''Server error: UPDATE matched 0 rows'') 500"
  by (simp add: model_defs example_defs)

section \<open>Properties of session verification and logout\<close>

subsection \<open>Verification of a session\<close>

text \<open>
  The reply of \<open>api_verify\<close> does not depend on the two status flags of any row: the
  gate asks only for \<open>is_authenticated\<close>, which is constantly true for a loaded user,
  and the method \<open>is_active\<close> is not consulted on this path.
\<close>

lemma find_map_status:
  "find (\<lambda>u. user_id u = x)
     (map (\<lambda>u. if user_id u = uid then u\<lparr>is_active := a, is_locked := l\<rparr> else u) us)
   = map_option (\<lambda>u. if user_id u = uid then u\<lparr>is_active := a, is_locked := l\<rparr> else u)
       (find (\<lambda>u. user_id u = x) us)"
  by (induction us) auto

lemma roles_set_status:
  "roles (set_status db uid a l) (if user_id u = uid then u\<lparr>is_active := a, is_locked := l\<rparr> else u)
   = roles db u"
proof -
  have "assigned (set_status db uid a l)
          (if user_id u = uid then u\<lparr>is_active := a, is_locked := l\<rparr> else u) r
        = assigned db u r" for r
    by (simp add: assigned_def set_status_def)
  then show ?thesis
    by (simp add: roles_def set_status_def cong: filter_cong)
qed

lemma user_info_set_status:
  "user_info (set_status db uid a l) (if user_id u = uid then u\<lparr>is_active := a, is_locked := l\<rparr> else u)
   = user_info db u"
  by (simp add: user_info_def roles_set_status)

lemma api_verify_ignores_status:
  "fst (api_verify env (set_status db uid a l) cs) = fst (api_verify env db cs)"
proof (cases cs)
  case None
  then show ?thesis
    by (simp add: api_verify_def login_required_def current_user_def)
next
  case (Some x)
  have "load_user (set_status db uid a l) x
        = map_option (\<lambda>u. if user_id u = uid then u\<lparr>is_active := a, is_locked := l\<rparr> else u)
            (load_user db x)"
    by (simp add: load_user_def set_status_def find_map_status)
  then show ?thesis
    using Some
    by (cases "load_user db x")
       (simp_all add: api_verify_def login_required_def current_user_def is_authenticated_def
          user_info_set_status)
qed

text \<open>
  Claim C2 asks that, once a user with an established session is set inactive (or
  locked), the next verify call for that session fails as unauthenticated, the status
  being re-read on every check. The code at such an input: \<open>alice\<close> logs in, her row
  is then set inactive (or locked); the method \<open>is_active\<close> reports her as not
  active on that store, and yet \<open>api_verify\<close> for her session answers status 200 with
  her identity.
\<close>

theorem api_verify_disabled_user:
  "snd (snd (api_login env0 store0 None (req0 ''alice'' (JStr ''Secr3t!'')))) = Some 1
   \<and> \<not> is_active_hook env0
          (set_status (fst (snd (api_login env0 store0 None (req0 ''alice'' (JStr ''Secr3t!''))))) 1 False False) alice
   \<and> fst (api_verify env0
          (set_status (fst (snd (api_login env0 store0 None (req0 ''alice'' (JStr ''Secr3t!''))))) 1 False False)
          (Some 1))
       = Reply (Verify_body \<lparr>p_user_id = 1, p_username = ''alice'', p_email = ''alice@example.com'',
                            p_display_name = ''Alice'', p_roles = [''admin''], p_auth_provider = ''local''\<rparr>) 200
   \<and> fst (api_verify env0
          (set_status (fst (snd (api_login env0 store0 None (req0 ''alice'' (JStr ''Secr3t!''))))) 1 True True)
          (Some 1))
       = Reply (Verify_body \<lparr>p_user_id = 1, p_username = ''alice'', p_email = ''alice@example.com'',
                            p_display_name = ''Alice'', p_roles = [''admin''], p_auth_provider = ''local''\<rparr>) 200"
  by (simp add: model_defs example_defs)

subsection \<open>Logout\<close>

text \<open>
  Claim C7, as amended. A logout call on an established session (the client's session
  names an existing user) is answered with status 200 and the success body, removes the
  user's id from the client's session, and appends one \<open>logout\<close> row with the user's
  id to the audit table when the audit write succeeds; it leaves the table of
  AuthSession rows as it was, so no \<open>logout_time\<close> is set. A further logout call with
  the session so ended, like any logout call without a session, is refused by the
  \<open>login_required\<close> gate and changes nothing.
\<close>

theorem api_logout_behaviour:
  assumes "find (\<lambda>u. user_id u = uid) (iam_user_account db) = Some u"
  shows "api_logout env db (Some uid) req =
           (Reply Logout_body 200, fst (log_auth_event env req db ''logout'' (Some uid) True None), None)
     \<and> iam_auth_session (fst (snd (api_logout env db (Some uid) req))) = iam_auth_session db
     \<and> (audit_fault env = None \<longrightarrow>
          iam_auth_log (fst (snd (api_logout env db (Some uid) req))) = iam_auth_log db @
            [\<lparr>log_user_id = Some uid, event_type = ''logout'', event_time = utcnow env,
              ip_address = remote_addr req, user_agent = user_agent_header req,
              details = ''Event: logout, Success: True''\<rparr>])
     \<and> api_logout env (fst (snd (api_logout env db (Some uid) req)))
          (snd (snd (api_logout env db (Some uid) req))) req
        = (Unauthorized, fst (snd (api_logout env db (Some uid) req)), None)
     \<and> api_logout env db' None req = (Unauthorized, db', None)"
proof -
  have out: "api_logout env db (Some uid) req =
           (Reply Logout_body 200, fst (log_auth_event env req db ''logout'' (Some uid) True None), None)"
    using assms find_user_id [OF assms]
    by (simp add: api_logout_def login_required_def current_user_def load_user_def
        is_authenticated_def logout_user_def)
  have anon: "api_logout env d None req = (Unauthorized, d, None)" for d
    by (simp add: api_logout_def login_required_def current_user_def)
  have logs: "audit_fault env = None \<longrightarrow>
          iam_auth_log (fst (log_auth_event env req db ''logout'' (Some uid) True None)) = iam_auth_log db @
            [\<lparr>log_user_id = Some uid, event_type = ''logout'', event_time = utcnow env,
              ip_address = remote_addr req, user_agent = user_agent_header req,
              details = ''Event: logout, Success: True''\<rparr>]"
    by (simp add: log_auth_event_written py_not_def str_bool_def)
  show ?thesis
    using logs by (simp add: out anon log_auth_event_tables)
qed

theorem api_logout_behaviour_witness:
  "find (\<lambda>u. user_id u = 1) (iam_user_account store1) = Some alice
   \<and> audit_fault env0 = None
   \<and> fst (api_logout env0 store1 (Some 1) (req0 [] JNull)) = Reply Logout_body 200
   \<and> snd (snd (api_logout env0 store1 (Some 1) (req0 [] JNull))) = None
   \<and> iam_auth_session (fst (snd (api_logout env0 store1 (Some 1) (req0 [] JNull)))) = iam_auth_session store1
   \<and> iam_auth_log (fst (snd (api_logout env0 store1 (Some 1) (req0 [] JNull)))) =
        [\<lparr>log_user_id = Some 1, event_type = ''logout'', event_time = 1000,
          ip_address = Some ''10.0.0.7'', user_agent = Some ''curl'',
          details = ''Event: logout, Success: True''\<rparr>]
   \<and> fst (api_logout env0 (fst (snd (api_logout env0 store1 (Some 1) (req0 [] JNull))))
             (snd (snd (api_logout env0 store1 (Some 1) (req0 [] JNull)))) (req0 [] JNull)) = Unauthorized
   \<and> api_logout env0 store1 None (req0 [] JNull) = (Unauthorized, store1, None)"
proof -
  have found: "find (\<lambda>u. user_id u = 1) (iam_user_account store1) = Some alice"
    by (simp add: example_defs)
  have ok: "audit_fault env0 = None"
    by (simp add: env0_def)
  note th = api_logout_behaviour [OF found, where env = env0 and req = "req0 [] JNull" and db' = store1]
  have logs: "iam_auth_log (fst (snd (api_logout env0 store1 (Some 1) (req0 [] JNull)))) =
        [\<lparr>log_user_id = Some 1, event_type = ''logout'', event_time = 1000,
          ip_address = Some ''10.0.0.7'', user_agent = Some ''curl'',
          details = ''Event: logout, Success: True''\<rparr>]"
    using th [THEN conjunct2, THEN conjunct2, THEN conjunct1] ok
    by (simp add: example_defs)
  have first: "fst (api_logout env0 store1 (Some 1) (req0 [] JNull)) = Reply Logout_body 200"
    "snd (snd (api_logout env0 store1 (Some 1) (req0 [] JNull))) = None"
    using th [THEN conjunct1] by simp_all
  have again: "fst (api_logout env0 (fst (snd (api_logout env0 store1 (Some 1) (req0 [] JNull))))
             (snd (snd (api_logout env0 store1 (Some 1) (req0 [] JNull)))) (req0 [] JNull)) = Unauthorized"
    using th [THEN conjunct2, THEN conjunct2, THEN conjunct2, THEN conjunct1] by simp
  from found ok first logs again
    th [THEN conjunct2, THEN conjunct1]
    th [THEN conjunct2, THEN conjunct2, THEN conjunct2, THEN conjunct2]
  show ?thesis by blast
qed

text \<open>
  The claim as first stated has the logout set \<open>logout_time\<close> on the active
  AuthSession row and has a logout of an ended session succeed. In the example scenario
  with one active AuthSession row of \<open>alice\<close>, her logout leaves that row's
  \<open>logout_time\<close> empty, and the repeated logout is refused instead of succeeding.
\<close>

theorem api_logout_session_row_counterexample:
  "map logout_time (iam_auth_session store1) = [None]
   \<and> fst (api_logout env0 store1 (Some 1) (req0 [] JNull)) = Reply Logout_body 200
   \<and> map logout_time (iam_auth_session (fst (snd (api_logout env0 store1 (Some 1) (req0 [] JNull))))) = [None]
   \<and> snd (snd (api_logout env0 store1 (Some 1) (req0 [] JNull))) = None
   \<and> fst (api_logout env0 (fst (snd (api_logout env0 store1 (Some 1) (req0 [] JNull)))) None (req0 [] JNull))
       = Unauthorized
   \<and> Unauthorized \<noteq> Reply Logout_body 200"
  by (simp add: model_defs example_defs)

end
